theory Spec2Isabelle
  imports Main "HOL-Library.Word"
begin

section \<open>The data logger firmware (STM32 node): data model\<close>

text \<open>
  The firmware is an Arduino sketch: global variables, three peripherals (the real-time
  clock, the SD card and the nRF24 radio) and functions that mutate them. The model
  threads one record \<open>logger\<close> holding the globals and the observable state of the
  peripherals through every function. Machine integers are words of the width the source
  declares (\<open>uint8_t\<close>, \<open>uint16_t\<close>, \<open>uint32_t\<close>); where C promotes to \<open>int\<close> before an
  operation, the model computes on \<open>nat\<close> and casts back.

  Conventions of the model:
  \<^item> \<open>delay\<close> and the serial console are not modelled;
  \<^item> the clock does not tick while one function runs, so the several reads of the RTC
    inside one call see the same time;
  \<^item> a \<open>radio.write\<close> is recorded in \<open>written\<close> whether or not it is acknowledged,
    its boolean result is read from \<open>ackOf\<close>;
  \<^item> a field of a response struct that the source never assigns is \<open>None\<close>;
  \<^item> a file is its bytes, \<open>FILE_WRITE\<close> appends, and the directory keeps the order in
    which the files were created;
  \<^item> a function that can run into undefined behaviour returns \<open>fault + result\<close>: a
    store outside an array (the local array of \<open>cleanupOldFiles\<close>, a character buffer
    filled by \<open>sprintf\<close> or \<open>strcpy\<close>) is \<open>Inl OutOfBounds\<close>, an integer division by
    zero is \<open>Inl DivisionByZero\<close>, and what the source does after it is not modelled.

  The repository holds three sketches of the node: \<open>part_001\<close>, the one with the four
  commands, modelled in full; the first sketch of \<open>part_000\<close> (lines 1-556), modelled
  where it differs; and the second sketch of \<open>part_000\<close>, whose request handler repeats
  that of the first.
\<close>

type_synonym u8 = "8 word"
type_synonym u16 = "16 word"
type_synonym u32 = "32 word"

subsection \<open>Constants\<close>

definition CMD_REQUEST_DATA :: u8 where "CMD_REQUEST_DATA = 1"
definition CMD_SEND_DATA :: u8 where "CMD_SEND_DATA = 2"
definition CMD_LIST_FILES :: u8 where "CMD_LIST_FILES = 3"
definition CMD_FILE_LIST :: u8 where "CMD_FILE_LIST = 4"
definition CMD_MODIFY_RTC :: u8 where "CMD_MODIFY_RTC = 5"
definition CMD_GET_RTC_INFO :: u8 where "CMD_GET_RTC_INFO = 6"

definition MAX_FILES :: nat where "MAX_FILES = 50"
definition CMD_LIST_START :: u8 where "CMD_LIST_START = 0x24"
definition CMD_LIST_END :: u8 where "CMD_LIST_END = 0x25"

definition MAX_DAYS :: nat where "MAX_DAYS = 360"
definition MINUTES_PER_DAY :: nat where "MINUTES_PER_DAY = 1440"
definition MAX_FILENAME_LENGTH :: nat where "MAX_FILENAME_LENGTH = 13"

definition RTC_KEY_MONTH :: u8 where "RTC_KEY_MONTH = 1"
definition RTC_KEY_DAY :: u8 where "RTC_KEY_DAY = 2"
definition RTC_KEY_HOUR :: u8 where "RTC_KEY_HOUR = 3"
definition RTC_KEY_MINUTE :: u8 where "RTC_KEY_MINUTE = 4"
definition RTC_KEY_SECOND :: u8 where "RTC_KEY_SECOND = 5"
definition RTC_KEY_YEAR :: u8 where "RTC_KEY_YEAR = 6"

subsection \<open>Structs\<close>

record DateTime =
  year :: u16
  month :: u8
  day :: u8
  hour :: u8
  minute :: u8
  second :: u8

text \<open>
  \<open>rq_filename\<close> is the C string held by \<open>char filename[13]\<close>: the bytes before the
  first NUL, all 13 of them when the array holds no NUL.
\<close>

record DataRequest =
  rq_command :: u8
  rq_startIndex :: u16
  rq_numSamples :: u16
  rq_filename :: string
  rq_key :: u8
  rq_value :: u8

record DataResponse =
  rs_command :: "u8 option"
  rs_index :: "u16 option"
  rs_value0 :: "u16 option"
  rs_value1 :: "u16 option"
  rs_value2 :: "u16 option"
  rs_value3 :: "u16 option"
  rs_timestamp :: "string option"
  rs_key :: "u8 option"
  rs_value :: "u8 option"

definition uninitResponse :: DataResponse where
  "uninitResponse = \<lparr>rs_command = None, rs_index = None, rs_value0 = None, rs_value1 = None,
     rs_value2 = None, rs_value3 = None, rs_timestamp = None, rs_key = None, rs_value = None\<rparr>"

record FileListResponse =
  fl_command :: u8
  fl_fileIndex :: u8
  fl_totalFiles :: u8
  fl_filename :: string

text \<open>
  The two response structs of the earlier variant (\<open>part_000\<close>, lines 72-85). Its data
  response carries a \<open>float\<close>, the result of \<open>String::toFloat\<close>; the model keeps the
  text that is converted and does not model the conversion.
\<close>

record DataResponse0 =
  r0_command :: u8
  r0_index :: u16
  r0_temperature :: string
  r0_timestamp :: u32

record FileListResponse0 =
  f0_command :: u8
  f0_fileCount :: u8
  f0_filename :: string

text \<open>What one \<open>radio.write\<close> puts on the air: a single byte, or one of the structs.\<close>

datatype frame =
    ByteFrame u8
  | DataFrame DataResponse
  | FileFrame FileListResponse
  | DataFrame0 DataResponse0
  | FileFrame0 FileListResponse0

subsection \<open>Globals and peripherals\<close>

text \<open>
  \<open>sdFiles\<close> is the root directory of the card in enumeration order, a file being its
  name and its bytes. \<open>sdOpenOk\<close> tells whether \<open>SD.open\<close> returns a usable handle.
  \<open>fileNames\<close> is the global array \<open>char fileNames[MAX_FILES][13]\<close>, indexed below
  \<open>MAX_FILES\<close> only. The \<open>rtc*\<close> and \<open>alarm*\<close> fields are the registers behind the
  \<open>STM32RTC\<close> getters and setters; \<open>rtcYear\<close> counts from 2000.
\<close>

record logger =
  maxSamplesPerDay :: u16
  sampleCount :: u16
  samplingInterval :: u8
  fileNames :: "nat \<Rightarrow> string"
  fileCount :: u8
  filesScanned :: bool
  currentFilename :: string
  sdAvailable :: bool
  alarmTriggered :: bool
  lastAlarmTime :: u32
  rtcYear :: u8
  rtcMonth :: u8
  rtcDay :: u8
  rtcHours :: u8
  rtcMinutes :: u8
  rtcSeconds :: u8
  alarmDay :: u8
  alarmHours :: u8
  alarmMinutes :: u8
  alarmSeconds :: u8
  alarmEnabled :: bool
  sdFiles :: "(string \<times> string) list"
  sdOpenOk :: bool
  listening :: bool
  written :: "frame list"
  ackOf :: "nat \<Rightarrow> bool"
  rxQueue :: "DataRequest list"

section \<open>Sampling configuration\<close>

text \<open>
  \<open>setSamplingInterval\<close> (\<open>part_001\<close>, lines 475-488). \<open>MINUTES_PER_DAY / samplingInterval\<close>
  is an \<open>int\<close> division whose result is stored in a \<open>uint16_t\<close>.
\<close>

definition setSamplingInterval :: "u8 \<Rightarrow> logger \<Rightarrow> logger" where
  "setSamplingInterval interval s =
     (if interval \<ge> 1 \<and> interval \<le> 60
      then s\<lparr>samplingInterval := interval,
             maxSamplesPerDay := of_nat (MINUTES_PER_DAY div unat interval),
             sampleCount := 0\<rparr>
      else s)"

section \<open>Strings and the Arduino library\<close>

text \<open>
  The sketch formats with \<open>sprintf\<close> and \<open>Print::print\<close> and parses with the Arduino
  \<open>String\<close> class and \<open>atol\<close>. These library routines are not part of the repository;
  they are modelled after their documented behaviour on text, a text being a list of
  bytes none of which is NUL.
\<close>

definition digitChar :: "nat \<Rightarrow> char" where
  "digitChar d = char_of (48 + d)"

text \<open>\<open>print\<close> of an unsigned number, \<open>%d\<close> of a non-negative one: decimal digits.\<close>

function showNat :: "nat \<Rightarrow> string" where
  "showNat n = (if n < 10 then [digitChar n] else showNat (n div 10) @ [digitChar (n mod 10)])"
  by pat_completeness auto
termination
  by (relation "measure id") auto

declare showNat.simps [simp del]

text \<open>\<open>%02d\<close> of a non-negative number: at least two digits, padded with a zero.\<close>

definition pad2 :: "nat \<Rightarrow> string" where
  "pad2 n = (if n < 10 then CHR ''0'' # showNat n else showNat n)"

text \<open>
  \<open>strcmp\<close> on C strings without NUL: the sign of the result is the order of the first
  differing bytes, a proper prefix being smaller.
\<close>

fun strcmp :: "string \<Rightarrow> string \<Rightarrow> int" where
  "strcmp [] [] = 0"
| "strcmp [] (b # bs) = - int (of_char b)"
| "strcmp (a # as) [] = int (of_char a)"
| "strcmp (a # as) (b # bs) =
     (if a = b then strcmp as bs else int (of_char a) - int (of_char b))"

text \<open>
  \<open>Stream::readStringUntil\<close> on an open file, the file being the bytes not yet read:
  the result is the bytes before the terminator, which is consumed; without a terminator
  everything up to the end of the file is returned. \<open>available\<close> is \<open>rest \<noteq> []\<close>.
\<close>

definition readStringUntil :: "char \<Rightarrow> string \<Rightarrow> string \<times> string" where
  "readStringUntil c rest = (takeWhile (\<lambda>x. x \<noteq> c) rest, drop 1 (dropWhile (\<lambda>x. x \<noteq> c) rest))"

definition newline :: char where
  "newline = CHR 0x0A"

text \<open>\<open>println\<close> terminates the line with carriage return and line feed.\<close>

definition crlf :: string where
  "crlf = [CHR 0x0D, CHR 0x0A]"

text \<open>
  \<open>String::indexOf(ch, from)\<close>: the position of the first \<open>ch\<close> at or after \<open>from\<close>, or
  \<open>-1\<close>. The \<open>int\<close> argument is converted to \<open>unsigned int\<close> (32 bits).
\<close>

definition toUnsigned :: "int \<Rightarrow> nat" where
  "toUnsigned i = nat (i mod 2 ^ 32)"

fun findFrom :: "char \<Rightarrow> nat \<Rightarrow> string \<Rightarrow> int" where
  "findFrom c k [] = - 1"
| "findFrom c k (x # xs) = (if x = c then int k else findFrom c (Suc k) xs)"

definition indexOf :: "string \<Rightarrow> char \<Rightarrow> int \<Rightarrow> int" where
  "indexOf line c from =
     (if toUnsigned from \<ge> length line then - 1
      else findFrom c (toUnsigned from) (drop (toUnsigned from) line))"

text \<open>
  \<open>String::substring(left, right)\<close>: the bounds are swapped when \<open>left > right\<close>, the
  result is empty when \<open>left\<close> is beyond the end, and \<open>right\<close> is cut at the length.
  \<open>substring(left)\<close> runs to the end of the string.
\<close>

definition substring :: "string \<Rightarrow> int \<Rightarrow> int \<Rightarrow> string" where
  "substring line left right =
     (let l = min (toUnsigned left) (toUnsigned right);
          r = max (toUnsigned left) (toUnsigned right)
      in if l \<ge> length line then [] else take (min r (length line) - l) (drop l line))"

definition substringFrom :: "string \<Rightarrow> int \<Rightarrow> string" where
  "substringFrom line left = substring line left (int (length line))"

text \<open>
  \<open>String::toInt\<close> is \<open>atol\<close>: leading white space, an optional sign, then decimal
  digits up to the first other byte; the result saturates at the bounds of \<open>long\<close>.
\<close>

definition isSpace :: "char \<Rightarrow> bool" where
  "isSpace c = (c = CHR '' '' \<or> (9 \<le> (of_char c :: nat) \<and> (of_char c :: nat) \<le> 13))"

definition isDigit :: "char \<Rightarrow> bool" where
  "isDigit c = (48 \<le> (of_char c :: nat) \<and> (of_char c :: nat) \<le> 57)"

fun digitsValue :: "nat \<Rightarrow> string \<Rightarrow> nat" where
  "digitsValue acc [] = acc"
| "digitsValue acc (c # cs) =
     (if isDigit c then digitsValue (acc * 10 + (of_char c - 48)) cs else acc)"

definition clampLong :: "int \<Rightarrow> int" where
  "clampLong v = max (- (2 ^ 31)) (min (2 ^ 31 - 1) v)"

definition toInt :: "string \<Rightarrow> int" where
  "toInt str =
     (case dropWhile isSpace str of
        [] \<Rightarrow> 0
      | c # cs \<Rightarrow>
          if c = CHR ''-'' then clampLong (- int (digitsValue 0 cs))
          else if c = CHR ''+'' then clampLong (int (digitsValue 0 cs))
          else clampLong (int (digitsValue 0 (c # cs))))"

text \<open>
  \<open>sprintf\<close> and \<open>strcpy\<close> write a C string with its closing NUL into a character array
  and test no bound. The text fits an array of \<open>capacity\<close> bytes when it is shorter than
  \<open>capacity\<close>; otherwise bytes are stored outside the array.
\<close>

datatype fault = OutOfBounds | DivisionByZero

definition intoBuffer :: "nat \<Rightarrow> string \<Rightarrow> fault + string" where
  "intoBuffer capacity str = (if length str < capacity then Inr str else Inl OutOfBounds)"

section \<open>Clock service\<close>

text \<open>\<open>getCurrentDateTime\<close> and \<open>setDateTime\<close> (\<open>part_001\<close>, lines 224-248).\<close>

definition getCurrentDateTime :: "logger \<Rightarrow> DateTime" where
  "getCurrentDateTime s =
     \<lparr>year = of_nat (unat (rtcYear s) + 2000), month = rtcMonth s, day = rtcDay s,
      hour = rtcHours s, minute = rtcMinutes s, second = rtcSeconds s\<rparr>"

definition setDateTime :: "DateTime \<Rightarrow> logger \<Rightarrow> logger" where
  "setDateTime dt s =
     s\<lparr>rtcHours := hour dt, rtcMinutes := minute dt, rtcSeconds := second dt,
       rtcDay := day dt, rtcMonth := month dt, rtcYear := ucast (year dt - 2000)\<rparr>"

text \<open>
  \<open>formatDateTime\<close> (\<open>part_001\<close>, lines 389-395):
  \<open>char buffer[17]; sprintf(buffer, "%02d-%02d-%02d %02d:%02d", dt.year % 100, dt.month,
  dt.day, dt.hour, dt.minute); return String(buffer);\<close>. First the text that the format
  produces, then the function with its buffer.
\<close>

definition dateTimeText :: "DateTime \<Rightarrow> string" where
  "dateTimeText dt =
     pad2 (unat (year dt) mod 100) @ ''-'' @ pad2 (unat (month dt)) @ ''-'' @ pad2 (unat (day dt))
       @ '' '' @ pad2 (unat (hour dt)) @ '':'' @ pad2 (unat (minute dt))"

definition formatDateTime :: "DateTime \<Rightarrow> fault + string" where
  "formatDateTime dt = intoBuffer 17 (dateTimeText dt)"

section \<open>Sample store\<close>

subsection \<open>The card\<close>

definition sdExists :: "(string \<times> string) list \<Rightarrow> string \<Rightarrow> bool" where
  "sdExists fs name = (map_of fs name \<noteq> None)"

text \<open>
  Writing through a handle opened with \<open>FILE_WRITE\<close>: the file is created when absent and
  the bytes go to its end.
\<close>

fun sdAppend :: "(string \<times> string) list \<Rightarrow> string \<Rightarrow> string \<Rightarrow> (string \<times> string) list" where
  "sdAppend [] name bytes = [(name, bytes)]"
| "sdAppend ((n, c) # fs) name bytes =
     (if n = name then (n, c @ bytes) # fs else (n, c) # sdAppend fs name bytes)"

definition sdRemove :: "(string \<times> string) list \<Rightarrow> string \<Rightarrow> (string \<times> string) list" where
  "sdRemove fs name = filter (\<lambda>e. fst e \<noteq> name) fs"

definition sdRead :: "(string \<times> string) list \<Rightarrow> string \<Rightarrow> string" where
  "sdRead fs name = (case map_of fs name of None \<Rightarrow> [] | Some c \<Rightarrow> c)"

subsection \<open>The active file\<close>

text \<open>
  \<open>sprintf(currentFilename, "TMP_%02d%02d.CSV", now.month, now.day)\<close> into
  \<open>char currentFilename[16]\<close>. The two fields are \<open>uint8_t\<close>, so the name has at most 14
  bytes (lemma \<open>length_fileNameFor\<close>) and this store stays inside the array.
\<close>

definition fileNameFor :: "DateTime \<Rightarrow> string" where
  "fileNameFor now = ''TMP_'' @ pad2 (unat (month now)) @ pad2 (unat (day now)) @ ''.CSV''"

definition headerLine :: string where
  "headerLine = ''Index,DateTime,Value0,Value1,Value2,Value3''"

text \<open>
  The loop of \<open>updateCurrentFilename\<close> that counts the data lines:
  \<open>while (dataFile.available()) { dataFile.readStringUntil('\n'); sampleCount++; }\<close>.
\<close>

function countLines :: "string \<Rightarrow> u16 \<Rightarrow> u16" where
  "countLines rest cnt =
     (if rest \<noteq> [] then countLines (snd (readStringUntil newline rest)) (cnt + 1) else cnt)"
  by pat_completeness auto
termination
proof (relation "measure (\<lambda>(rest, cnt). length rest)")
  show "wf (measure (\<lambda>(rest, cnt). length rest))"
    by simp
next
  fix rest :: string and cnt :: u16
  assume "rest \<noteq> []"
  moreover have "length (dropWhile (\<lambda>x. x \<noteq> newline) rest) \<le> length rest"
    by (rule length_dropWhile_le)
  ultimately show "((snd (readStringUntil newline rest), cnt + 1), (rest, cnt))
      \<in> measure (\<lambda>(rest, cnt). length rest)"
    by (cases rest) (auto simp: readStringUntil_def)
qed

declare countLines.simps [simp del]

text \<open>
  \<open>updateCurrentFilename\<close> (\<open>part_001\<close>, lines 250-287), with the header row as a
  parameter since the variants of the sketch differ in it only.
\<close>

definition updateCurrentFilenameWith :: "string \<Rightarrow> logger \<Rightarrow> logger" where
  "updateCurrentFilenameWith header s =
     (let now = getCurrentDateTime s;
          s1 = s\<lparr>currentFilename := fileNameFor now\<rparr>
      in if \<not> sdExists (sdFiles s1) (currentFilename s1) \<and> sdAvailable s1 then
           (if sdOpenOk s1
            then s1\<lparr>sdFiles := sdAppend (sdFiles s1) (currentFilename s1) (header @ crlf),
                    sampleCount := 0\<rparr>
            else s1)
         else if sdAvailable s1 then
           (if sdOpenOk s1
            then s1\<lparr>sampleCount :=
                      countLines (snd (readStringUntil newline
                        (sdRead (sdFiles s1) (currentFilename s1)))) 0\<rparr>
            else s1)
         else s1)"

definition updateCurrentFilename :: "logger \<Rightarrow> logger" where
  "updateCurrentFilename = updateCurrentFilenameWith headerLine"

subsection \<open>Retention\<close>

text \<open>
  The test of \<open>cleanupOldFiles\<close> and \<open>scanFiles\<close> for a log file:
  \<open>strncmp(name, "TMP_", 4) == 0 && strlen(name) == 12 && strcmp(name + 8, ".CSV") == 0\<close>.
\<close>

definition isLogName :: "string \<Rightarrow> bool" where
  "isLogName name = (take 4 name = ''TMP_'' \<and> length name = 12 \<and> drop 8 name = ''.CSV'')"

text \<open>
  \<open>cleanupOldFiles\<close> (\<open>part_001\<close>, lines 289-341; the same text in \<open>part_000\<close>, lines
  228-280) keeps the names in a local array \<open>char fileNames[MAX_DAYS][16]\<close> and stores
  the next matching name at \<open>fileNames[fileCount]\<close> with no test of \<open>fileCount\<close>. A store
  at an index that is not below \<open>MAX_DAYS\<close> is outside the array: undefined behaviour in
  C, the fault \<open>OutOfBounds\<close> here.
\<close>

text \<open>
  The enumeration loop: \<open>strncpy(fileNames[fileCount], entry.name(), 15); fileCount++\<close>.
  The copy is cut at 15 bytes, inside the 16 bytes of a row; the row itself may be outside
  the array.
\<close>

fun collectNames :: "string list \<Rightarrow> (nat \<Rightarrow> string) \<Rightarrow> nat \<Rightarrow> fault + ((nat \<Rightarrow> string) \<times> nat)" where
  "collectNames [] arr cnt = Inr (arr, cnt)"
| "collectNames (e # es) arr cnt =
     (if isLogName e
      then (if cnt < MAX_DAYS then collectNames es (arr(cnt := take 15 e)) (cnt + 1)
            else Inl OutOfBounds)
      else collectNames es arr cnt)"

text \<open>The body of the inner loop of the bubble sort: compare and swap neighbours.\<close>

definition bubbleStep :: "nat \<Rightarrow> (nat \<Rightarrow> string) \<Rightarrow> (nat \<Rightarrow> string)" where
  "bubbleStep j arr =
     (if strcmp (arr j) (arr (j + 1)) > 0 then arr(j := arr (j + 1), j + 1 := arr j) else arr)"

text \<open>
  \<open>for (i = 0; i < fileCount - 1; i++) for (j = 0; j < fileCount - i - 1; j++) ...\<close>
\<close>

definition bubbleSort :: "nat \<Rightarrow> (nat \<Rightarrow> string) \<Rightarrow> (nat \<Rightarrow> string)" where
  "bubbleSort cnt arr = fold (\<lambda>i a. fold bubbleStep [0..<cnt - i - 1] a) [0..<cnt - 1] arr"

definition cleanupOldFiles :: "logger \<Rightarrow> fault + logger" where
  "cleanupOldFiles s =
     (if \<not> sdAvailable s then Inr s
      else case collectNames (if sdOpenOk s then map fst (sdFiles s) else []) (\<lambda>i. []) 0 of
             Inl f \<Rightarrow> Inl f
           | Inr (arr, cnt) \<Rightarrow>
               if cnt > MAX_DAYS
               then let sorted = bubbleSort cnt arr;
                        filesToDelete = cnt - MAX_DAYS
                    in Inr (s\<lparr>sdFiles := fold (\<lambda>i fs. sdRemove fs (sorted i))
                                             [0..<filesToDelete] (sdFiles s)\<rparr>)
               else Inr s)"

section \<open>Sampling scheduler\<close>

text \<open>
  \<open>setupNextAlarm\<close> (\<open>part_001\<close>, lines 352-387; the same text in \<open>part_000\<close>, lines
  291-326). The sums are \<open>int\<close> arithmetic, the results are stored in \<open>uint8_t\<close>.
\<close>

definition setupNextAlarm :: "logger \<Rightarrow> fault + logger" where
  "setupNextAlarm s =
     (let now = getCurrentDateTime s;
          alarmMinute = (of_nat ((unat (minute now) + unat (samplingInterval s)) mod 60) :: u8);
          wrapped = (alarmMinute < minute now);
          alarmHour = (if wrapped then of_nat ((unat (hour now) + 1) mod 24) else hour now);
          cleaned = (if wrapped \<and> alarmHour < hour now then cleanupOldFiles s else Inr s)
      in case cleaned of
           Inl f \<Rightarrow> Inl f
         | Inr s1 \<Rightarrow>
             Inr (s1\<lparr>alarmDay := rtcDay s1, alarmHours := alarmHour,
                     alarmMinutes := alarmMinute, alarmSeconds := 0, alarmEnabled := True,
                     lastAlarmTime := of_nat (unat alarmHour * 3600 + unat alarmMinute * 60)\<rparr>))"

text \<open>
  The four \<open>analogRead\<close> results of one measurement. The converter is an external
  collaborator; its readings are not negative.
\<close>

type_synonym reading = "nat \<times> nat \<times> nat \<times> nat"

text \<open>
  What \<open>takeMeasurement\<close> prints for one sample: \<open>index,label,v0,v1,v2,v3\<close>, the last
  value with \<open>println\<close>.
\<close>

definition recordText :: "u16 \<Rightarrow> string \<Rightarrow> reading \<Rightarrow> string" where
  "recordText idx label r =
     (case r of (a0, a1, a2, a3) \<Rightarrow>
        showNat (unat idx) @ '','' @ label @ '','' @ showNat a0 @ '','' @ showNat a1 @ '',''
          @ showNat a2 @ '','' @ showNat a3)"

definition recordLine :: "u16 \<Rightarrow> string \<Rightarrow> reading \<Rightarrow> string" where
  "recordLine idx label r = recordText idx label r @ crlf"

text \<open>
  The last part of \<open>takeMeasurement\<close> (\<open>part_001\<close>, lines 431-468): open the active file
  for writing, print the record, close, count the sample.
\<close>

definition storeSample :: "string \<Rightarrow> reading \<Rightarrow> logger \<Rightarrow> logger" where
  "storeSample label r s =
     (if sdOpenOk s
      then s\<lparr>sdFiles := sdAppend (sdFiles s) (currentFilename s) (recordLine (sampleCount s) label r),
             sampleCount := sampleCount s + 1\<rparr>
      else s)"

text \<open>
  \<open>takeMeasurement\<close> (\<open>part_001\<close>, lines 397-469). Its first statement divides by the
  sampling interval; the label is formatted after the active file has been resolved and
  before the file is opened for the record.
\<close>

definition takeMeasurement :: "reading \<Rightarrow> logger \<Rightarrow> fault + logger" where
  "takeMeasurement r s =
     (if samplingInterval s = 0 then Inl DivisionByZero
      else
        let s1 = s\<lparr>maxSamplesPerDay := of_nat (MINUTES_PER_DAY div unat (samplingInterval s))\<rparr>
        in if \<not> sdAvailable s1 then Inr s1
           else let now = getCurrentDateTime s1;
                    newFilename = fileNameFor now;
                    s2 = (if newFilename \<noteq> currentFilename s1
                             \<or> sampleCount s1 \<ge> maxSamplesPerDay s1
                          then (updateCurrentFilename (s1\<lparr>currentFilename := newFilename\<rparr>))
                                 \<lparr>sampleCount := 0\<rparr>
                          else s1)
                in case formatDateTime now of
                     Inl f \<Rightarrow> Inl f
                   | Inr dateTimeStr \<Rightarrow> Inr (storeSample dateTimeStr r s2))"

section \<open>Command protocol engine\<close>

subsection \<open>The radio\<close>

definition stopListening :: "logger \<Rightarrow> logger" where
  "stopListening s = s\<lparr>listening := False\<rparr>"

definition startListening :: "logger \<Rightarrow> logger" where
  "startListening s = s\<lparr>listening := True\<rparr>"

definition radioWrite :: "frame \<Rightarrow> logger \<Rightarrow> bool \<times> logger" where
  "radioWrite f s = (ackOf s (length (written s)), s\<lparr>written := written s @ [f]\<rparr>)"

subsection \<open>Listing the files\<close>

text \<open>
  The loop of \<open>scanFiles\<close> (\<open>part_001\<close>, lines 761-780) over the directory entries:
  \<open>while (fileCount < MAX_FILES) { ... strcpy(fileNames[fileCount], entry.name()); fileCount++ }\<close>.
  The loop is bounded by \<open>MAX_FILES\<close>, and a name that passes the test has 12 bytes, so
  the copy stays inside the 13 bytes of its row; so does the copy of a row into
  \<open>response.filename\<close> in \<open>sendFileList\<close>.
\<close>

fun scanLoop :: "string list \<Rightarrow> logger \<Rightarrow> logger" where
  "scanLoop [] s = s"
| "scanLoop (e # es) s =
     (if unat (fileCount s) < MAX_FILES
      then (if isLogName e
            then scanLoop es (s\<lparr>fileNames := (fileNames s)(unat (fileCount s) := e),
                                fileCount := fileCount s + 1\<rparr>)
            else scanLoop es s)
      else s)"

text \<open>\<open>scanFiles\<close> (\<open>part_001\<close>, lines 747-788).\<close>

definition scanFiles :: "logger \<Rightarrow> logger" where
  "scanFiles s =
     (let s1 = s\<lparr>fileCount := 0\<rparr>
      in if \<not> sdOpenOk s1 then s1
         else (scanLoop (map fst (sdFiles s1)) s1)\<lparr>filesScanned := True\<rparr>)"

text \<open>The frame that the loop of \<open>sendFileList\<close> sends for position \<open>i\<close>.\<close>

definition fileEntry :: "logger \<Rightarrow> nat \<Rightarrow> frame" where
  "fileEntry s i =
     FileFrame \<lparr>fl_command = CMD_FILE_LIST, fl_fileIndex = of_nat i,
                fl_totalFiles = fileCount s, fl_filename = fileNames s i\<rparr>"

text \<open>\<open>sendFileList\<close> (\<open>part_001\<close>, lines 790-854).\<close>

definition sendFileList :: "logger \<Rightarrow> logger" where
  "sendFileList s =
     (let s1 = stopListening s
      in if fileCount s1 = 0
         then startListening (snd (radioWrite (ByteFrame CMD_LIST_END) s1))
         else case radioWrite (ByteFrame CMD_LIST_START) s1 of
                (success, s2) \<Rightarrow>
                  if \<not> success then startListening s2
                  else let s3 = fold (\<lambda>i t. snd (radioWrite (fileEntry t i) t))
                                     [0..<unat (fileCount s2)] s2;
                           s4 = snd (radioWrite (ByteFrame CMD_LIST_END) s3)
                       in startListening s4)"

subsection \<open>Streaming a file\<close>

text \<open>
  The response that \<open>sendFile\<close> builds from one line (\<open>part_001\<close>, lines 896-912). The
  second field of the line is copied with
  \<open>strcpy(response.timestamp, tempTimestamp.c_str())\<close> into \<open>char timestamp[17]\<close>, whatever
  its length. The four values are \<open>long\<close> results stored in \<open>uint16_t\<close> fields; \<open>key\<close> and
  \<open>value\<close> are not assigned.
\<close>

definition comma :: char where
  "comma = CHR '',''"

definition lineResponse :: "u16 \<Rightarrow> nat \<Rightarrow> string \<Rightarrow> fault + DataResponse" where
  "lineResponse start counter line =
     (let idx1 = indexOf line comma 0;
          idx2 = indexOf line comma (idx1 + 1);
          idx3 = indexOf line comma (idx2 + 1);
          idx4 = indexOf line comma (idx3 + 1);
          idx5 = indexOf line comma (idx4 + 1);
          tempTimestamp = substring line (idx1 + 1) idx2
      in case intoBuffer 17 tempTimestamp of
           Inl f \<Rightarrow> Inl f
         | Inr timestamp \<Rightarrow>
             Inr (uninitResponse
                    \<lparr>rs_command := Some CMD_SEND_DATA,
                     rs_index := Some (start + of_nat counter),
                     rs_timestamp := Some timestamp,
                     rs_value0 := Some (of_int (toInt (substring line (idx2 + 1) idx3))),
                     rs_value1 := Some (of_int (toInt (substring line (idx3 + 1) idx4))),
                     rs_value2 := Some (of_int (toInt (substring line (idx4 + 1) idx5))),
                     rs_value3 := Some (of_int (toInt (substringFrom line (idx5 + 1))))\<rparr>))"

text \<open>
  \<open>for (uint16_t i = 0; i < request.startIndex; i++) { if (!dataFile.available()) break;
  dataFile.readStringUntil('\n'); }\<close>, counted by the iterations that remain.
\<close>

fun skipLines :: "nat \<Rightarrow> string \<Rightarrow> string" where
  "skipLines 0 rest = rest"
| "skipLines (Suc n) rest =
     (if rest = [] then rest else skipLines n (snd (readStringUntil newline rest)))"

text \<open>
  \<open>while (dataFile.available() && counter < request.numSamples) { ... counter++; }\<close>.
  \<open>counter\<close> stays below \<open>numSamples\<close>, so its increment does not wrap. The loop stops
  at the first line whose response cannot be built.
\<close>

function sendLoop :: "DataRequest \<Rightarrow> nat \<Rightarrow> string \<Rightarrow> logger \<Rightarrow> fault + logger" where
  "sendLoop request counter rest s =
     (if rest \<noteq> [] \<and> counter < unat (rq_numSamples request)
      then case readStringUntil newline rest of
             (line, rest') \<Rightarrow>
               (case lineResponse (rq_startIndex request) counter line of
                  Inl f \<Rightarrow> Inl f
                | Inr response \<Rightarrow>
                    sendLoop request (counter + 1) rest'
                      (snd (radioWrite (DataFrame response) s)))
      else Inr s)"
  by pat_completeness auto
termination
  by (relation "measure (\<lambda>(request, counter, rest, s). unat (rq_numSamples request) - counter)") auto

declare sendLoop.simps [simp del]

text \<open>\<open>sendFile\<close> (\<open>part_001\<close>, lines 856-932).\<close>

definition sendFile :: "DataRequest \<Rightarrow> logger \<Rightarrow> fault + logger" where
  "sendFile request0 s =
     (let s1 = stopListening s;
          request = request0\<lparr>rq_filename := take (MAX_FILENAME_LENGTH - 1) (rq_filename request0)\<rparr>
      in if \<not> sdExists (sdFiles s1) (rq_filename request) then Inr (startListening s1)
         else if sdOpenOk s1
         then let body = snd (readStringUntil newline (sdRead (sdFiles s1) (rq_filename request)));
                  rest = skipLines (unat (rq_startIndex request)) body
              in case sendLoop request 0 rest s1 of
                   Inl f \<Rightarrow> Inl f
                 | Inr s2 \<Rightarrow> Inr (startListening s2)
         else Inr (startListening s1))"

subsection \<open>Reading and writing the clock\<close>

text \<open>The bound on the day that \<open>modifyRTC\<close> computes (\<open>part_001\<close>, lines 539-547).\<close>

definition maxDaysOf :: "DateTime \<Rightarrow> u8" where
  "maxDaysOf current =
     (if month current = 4 \<or> month current = 6 \<or> month current = 9 \<or> month current = 11
      then 30
      else if month current = 2
      then (if (unat (year current) mod 4 = 0 \<and> unat (year current) mod 100 \<noteq> 0)
               \<or> unat (year current) mod 400 = 0
            then 29 else 28)
      else 31)"

text \<open>
  The \<open>switch\<close> of \<open>modifyRTC\<close> (\<open>part_001\<close>, lines 526-601): the flag \<open>valid\<close> and the
  local copy \<open>current\<close> after it.
\<close>

definition checkField :: "u8 \<Rightarrow> u8 \<Rightarrow> DateTime \<Rightarrow> bool \<times> DateTime" where
  "checkField key v current =
     (if key = RTC_KEY_MONTH then
        (if v \<ge> 1 \<and> v \<le> 12 then (True, current\<lparr>month := v\<rparr>) else (False, current))
      else if key = RTC_KEY_DAY then
        (if v \<ge> 1 \<and> v \<le> maxDaysOf current then (True, current\<lparr>day := v\<rparr>)
         else (False, current))
      else if key = RTC_KEY_HOUR then
        (if v < 24 then (True, current\<lparr>hour := v\<rparr>) else (False, current))
      else if key = RTC_KEY_MINUTE then
        (if v < 60 then (True, current\<lparr>minute := v\<rparr>) else (False, current))
      else if key = RTC_KEY_SECOND then
        (if v < 60 then (True, current\<lparr>second := v\<rparr>) else (False, current))
      else if key = RTC_KEY_YEAR then
        (if v \<le> 99 then (True, current\<lparr>year := of_nat (2000 + unat v)\<rparr>) else (False, current))
      else (False, current))"

text \<open>
  \<open>modifyRTC\<close> (\<open>part_001\<close>, lines 517-621), returning the flag and the state. The
  setters of the clock are modelled as plain stores. After a write the function formats
  the new time for the console: \<open>Serial.println(formatDateTime(updated))\<close>.
\<close>

definition modifyRTC :: "u8 \<Rightarrow> u8 \<Rightarrow> logger \<Rightarrow> fault + (bool \<times> logger)" where
  "modifyRTC key v s =
     (case checkField key v (getCurrentDateTime s) of
        (valid, current) \<Rightarrow>
          if valid
          then (let s1 = setDateTime current s;
                    s2 = (if key = RTC_KEY_MONTH \<or> key = RTC_KEY_DAY
                          then updateCurrentFilename s1 else s1)
                in case formatDateTime (getCurrentDateTime s2) of
                     Inl f \<Rightarrow> Inl f
                   | Inr shown \<Rightarrow> Inr (True, s2))
          else Inr (False, s))"

text \<open>\<open>getRTCInfo\<close> (\<open>part_001\<close>, lines 628-647).\<close>

definition getRTCInfo :: "u8 \<Rightarrow> logger \<Rightarrow> u8" where
  "getRTCInfo key s =
     (let current = getCurrentDateTime s
      in if key = RTC_KEY_MONTH then month current
         else if key = RTC_KEY_DAY then day current
         else if key = RTC_KEY_HOUR then hour current
         else if key = RTC_KEY_MINUTE then minute current
         else if key = RTC_KEY_SECOND then second current
         else if key = RTC_KEY_YEAR then ucast (year current - 2000)
         else 0xFF)"

text \<open>\<open>sendRTCInfo\<close> (\<open>part_001\<close>, lines 653-677).\<close>

definition sendRTCInfo :: "DataRequest \<Rightarrow> logger \<Rightarrow> logger" where
  "sendRTCInfo request s =
     (let response = uninitResponse\<lparr>rs_command := Some CMD_GET_RTC_INFO,
                                     rs_key := Some (rq_key request),
                                     rs_value := Some (getRTCInfo (rq_key request) s)\<rparr>;
          s1 = stopListening s;
          s2 = snd (radioWrite (DataFrame response) s1)
      in startListening s2)"

subsection \<open>Dispatch\<close>

text \<open>
  \<open>waitForCommand\<close> (\<open>part_001\<close>, lines 679-745). \<open>radio.available()\<close> is
  \<open>rxQueue s \<noteq> []\<close> and \<open>radio.read\<close> takes the first request of the queue. The listing is
  requested with the opcode \<open>CMD_FILE_LIST\<close>, which is also the opcode of its entries.
\<close>

definition waitForCommand :: "logger \<Rightarrow> fault + logger" where
  "waitForCommand s =
     (case rxQueue s of
        [] \<Rightarrow> Inr s
      | request # queue \<Rightarrow>
          (let s0 = s\<lparr>rxQueue := queue\<rparr>
           in if rq_command request = CMD_FILE_LIST then Inr (sendFileList (scanFiles s0))
              else if rq_command request = CMD_REQUEST_DATA then sendFile request s0
              else if rq_command request = CMD_MODIFY_RTC then
                (case modifyRTC (rq_key request) (rq_value request) s0 of
                   Inl f \<Rightarrow> Inl f
                 | Inr (success, s1) \<Rightarrow>
                     (let response = uninitResponse\<lparr>rs_command := Some CMD_MODIFY_RTC,
                                                     rs_key := Some (rq_key request),
                                                     rs_value := Some (if success then 1 else 0)\<rparr>;
                          s2 = stopListening s1;
                          s3 = snd (radioWrite (DataFrame response) s2)
                      in Inr (startListening s3)))
              else if rq_command request = CMD_GET_RTC_INFO then Inr (sendRTCInfo request s0)
              else Inr s0))"

text \<open>
  The body of \<open>if (alarmTriggered)\<close> in \<open>loop\<close> (\<open>part_001\<close>, lines 175-183): one
  measurement cycle. Then \<open>loop\<close> itself (lines 170-187).
\<close>

definition measurementCycle :: "reading \<Rightarrow> logger \<Rightarrow> fault + logger" where
  "measurementCycle r s =
     (case takeMeasurement r (s\<lparr>alarmTriggered := False\<rparr>) of
        Inl f \<Rightarrow> Inl f
      | Inr s1 \<Rightarrow> setupNextAlarm s1)"

definition loop :: "reading \<Rightarrow> logger \<Rightarrow> fault + logger" where
  "loop r s =
     (case waitForCommand s of
        Inl f \<Rightarrow> Inl f
      | Inr s1 \<Rightarrow> if alarmTriggered s1 then measurementCycle r s1 else Inr s1)"

section \<open>The earlier variant of the sketch (\<open>part_000\<close>, lines 1-556)\<close>

text \<open>
  This variant has the same globals, \<open>setDateTime\<close>, \<open>getCurrentDateTime\<close>,
  \<open>cleanupOldFiles\<close>, \<open>setupNextAlarm\<close> and \<open>setSamplingInterval\<close>, word for word. Its
  file has a different header row and its \<open>takeMeasurement\<close> differs. The temperature is a
  \<open>float\<close> computed from the converter; the model takes the text that \<open>println\<close> prints
  for it as an input.
\<close>

definition headerLine0 :: string where
  "headerLine0 = ''Index,Timestamp,DateTime,Temperature''"

definition updateCurrentFilename0 :: "logger \<Rightarrow> logger" where
  "updateCurrentFilename0 = updateCurrentFilenameWith headerLine0"

text \<open>\<open>getTimestampSeconds\<close> (\<open>part_000\<close>, lines 282-289).\<close>

definition getTimestampSeconds :: "logger \<Rightarrow> u32" where
  "getTimestampSeconds s =
     of_nat (unat (rtcHours s) * 3600 + unat (rtcMinutes s) * 60 + unat (rtcSeconds s))"

text \<open>
  \<open>formatDateTime\<close> (\<open>part_000\<close>, lines 328-334): \<open>char buffer[20]\<close> and the format
  \<open>"%04d-%02d-%02d %02d:%02d:%02d"\<close>, which fills the buffer to its last byte when every
  field has its usual width.
\<close>

definition pad4 :: "nat \<Rightarrow> string" where
  "pad4 n = replicate (4 - length (showNat n)) CHR ''0'' @ showNat n"

definition dateTimeText0 :: "DateTime \<Rightarrow> string" where
  "dateTimeText0 dt =
     pad4 (unat (year dt)) @ ''-'' @ pad2 (unat (month dt)) @ ''-'' @ pad2 (unat (day dt))
       @ '' '' @ pad2 (unat (hour dt)) @ '':'' @ pad2 (unat (minute dt))
       @ '':'' @ pad2 (unat (second dt))"

definition formatDateTime0 :: "DateTime \<Rightarrow> fault + string" where
  "formatDateTime0 dt = intoBuffer 20 (dateTimeText0 dt)"

text \<open>\<open>takeMeasurement\<close> (\<open>part_000\<close>, lines 337-395).\<close>

definition takeMeasurement0 :: "string \<Rightarrow> logger \<Rightarrow> fault + logger" where
  "takeMeasurement0 temperature s =
     (if samplingInterval s = 0 then Inl DivisionByZero
      else
        let s1 = s\<lparr>maxSamplesPerDay := of_nat (MINUTES_PER_DAY div unat (samplingInterval s))\<rparr>
        in if \<not> sdAvailable s1 \<or> sampleCount s1 \<ge> maxSamplesPerDay s1 then Inr s1
           else let now = getCurrentDateTime s1;
                    newFilename = fileNameFor now;
                    s2 = (if newFilename \<noteq> currentFilename s1
                          then (updateCurrentFilename0 (s1\<lparr>currentFilename := newFilename\<rparr>))
                                 \<lparr>sampleCount := 0\<rparr>
                          else s1);
                    timestamp = getTimestampSeconds s2
                in case formatDateTime0 now of
                     Inl f \<Rightarrow> Inl f
                   | Inr dateTimeStr \<Rightarrow>
                       if sdOpenOk s2
                       then Inr (s2\<lparr>sdFiles := sdAppend (sdFiles s2) (currentFilename s2)
                                       (showNat (unat (sampleCount s2)) @ '',''
                                          @ showNat (unat timestamp) @ '','' @ dateTimeStr
                                          @ '','' @ temperature @ crlf),
                                     sampleCount := sampleCount s2 + 1\<rparr>)
                       else Inr s2)"

text \<open>
  The response that \<open>checkForRFRequests\<close> builds from one line (\<open>part_000\<close>, lines
  477-486; the same text at lines 998-1007). Its fields are numbers: no text is copied
  into it.
\<close>

definition lineResponse0 :: "u16 \<Rightarrow> nat \<Rightarrow> string \<Rightarrow> DataResponse0" where
  "lineResponse0 start counter line =
     (let idx1 = indexOf line comma 0;
          idx2 = indexOf line comma (idx1 + 1);
          idx3 = indexOf line comma (idx2 + 1)
      in \<lparr>r0_command = CMD_SEND_DATA,
          r0_index = start + of_nat counter,
          r0_temperature = substringFrom line (idx3 + 1),
          r0_timestamp = of_int (toInt (substring line (idx1 + 1) idx2))\<rparr>)"

text \<open>Its sending loop, the one of \<open>sendFile\<close> with the other response.\<close>

function sendLoop0 :: "DataRequest \<Rightarrow> nat \<Rightarrow> string \<Rightarrow> logger \<Rightarrow> logger" where
  "sendLoop0 request counter rest s =
     (if rest \<noteq> [] \<and> counter < unat (rq_numSamples request)
      then case readStringUntil newline rest of
             (line, rest') \<Rightarrow>
               sendLoop0 request (counter + 1) rest'
                 (snd (radioWrite (DataFrame0 (lineResponse0 (rq_startIndex request) counter line)) s))
      else s)"
  by pat_completeness auto
termination
  by (relation "measure (\<lambda>(request, counter, rest, s). unat (rq_numSamples request) - counter)") auto

declare sendLoop0.simps [simp del]

text \<open>
  The loop of the listing (\<open>part_000\<close>, lines 520-542): one frame for each matching
  entry, numbered by a \<open>uint8_t\<close> counter. A matching name has 12 bytes and fits the 16
  bytes of \<open>response.filename\<close>.
\<close>

fun listLoop0 :: "string list \<Rightarrow> u8 \<Rightarrow> logger \<Rightarrow> logger" where
  "listLoop0 [] cnt s = s"
| "listLoop0 (e # es) cnt s =
     (if isLogName e
      then listLoop0 es (cnt + 1)
             (snd (radioWrite (FileFrame0 \<lparr>f0_command = CMD_FILE_LIST, f0_fileCount = cnt,
                                             f0_filename = e\<rparr>) s))
      else listLoop0 es cnt s)"

text \<open>
  \<open>checkForRFRequests\<close> (\<open>part_000\<close>, lines 435-556). The name of the file is used as
  the request holds it.
\<close>

definition checkForRFRequests :: "logger \<Rightarrow> logger" where
  "checkForRFRequests s =
     (case rxQueue s of
        [] \<Rightarrow> s
      | request # queue \<Rightarrow>
          (let s0 = s\<lparr>rxQueue := queue\<rparr>
           in if rq_command request = CMD_REQUEST_DATA then
                (let s1 = stopListening s0
                 in if \<not> sdExists (sdFiles s1) (rq_filename request) then startListening s1
                    else if sdOpenOk s1
                    then let body = snd (readStringUntil newline
                                      (sdRead (sdFiles s1) (rq_filename request)));
                             rest = skipLines (unat (rq_startIndex request)) body
                         in startListening (sendLoop0 request 0 rest s1)
                    else startListening s1)
              else if rq_command request = CMD_LIST_FILES then
                (let s1 = stopListening s0
                 in if sdOpenOk s1
                    then startListening (listLoop0 (map fst (sdFiles s1)) 0 s1)
                    else startListening s1)
              else s0))"

text \<open>
  The body of \<open>if (alarmTriggered)\<close> in \<open>loop\<close> (\<open>part_000\<close>, lines 149-157), and
  \<open>loop\<close> (lines 144-161).
\<close>

definition measurementCycle0 :: "string \<Rightarrow> logger \<Rightarrow> fault + logger" where
  "measurementCycle0 temperature s =
     (case takeMeasurement0 temperature (s\<lparr>alarmTriggered := False\<rparr>) of
        Inl f \<Rightarrow> Inl f
      | Inr s1 \<Rightarrow> setupNextAlarm s1)"

definition loop0 :: "string \<Rightarrow> logger \<Rightarrow> fault + logger" where
  "loop0 temperature s =
     (let s1 = checkForRFRequests s
      in if alarmTriggered s1 then measurementCycle0 temperature s1 else Inr s1)"

section \<open>The range of a clock field, in the words of the specification\<close>

text \<open>
  The specification lets a field write pass when: month 1-12; day 1 to 28, 29, 30 or 31
  depending on month and leap year (divisible by 4 and not by 100, unless also divisible
  by 400); hour 0-23; minute and second 0-59; year a two-digit offset. These definitions
  follow those words, to be compared with \<open>checkField\<close>.
\<close>

definition leapYear :: "nat \<Rightarrow> bool" where
  "leapYear y = ((y mod 4 = 0 \<and> y mod 100 \<noteq> 0) \<or> y mod 400 = 0)"

definition daysInMonth :: "nat \<Rightarrow> nat \<Rightarrow> nat" where
  "daysInMonth y m =
     (if m = 2 then (if leapYear y then 29 else 28)
      else if m = 4 \<or> m = 6 \<or> m = 9 \<or> m = 11 then 30 else 31)"

definition fieldInRange :: "DateTime \<Rightarrow> u8 \<Rightarrow> nat \<Rightarrow> bool" where
  "fieldInRange now key v =
     (if key = RTC_KEY_MONTH then 1 \<le> v \<and> v \<le> 12
      else if key = RTC_KEY_DAY then 1 \<le> v \<and> v \<le> daysInMonth (unat (year now)) (unat (month now))
      else if key = RTC_KEY_HOUR then v \<le> 23
      else if key = RTC_KEY_MINUTE \<or> key = RTC_KEY_SECOND then v \<le> 59
      else if key = RTC_KEY_YEAR then v \<le> 99
      else False)"

section \<open>Notions for the statements about streaming\<close>

text \<open>
  The lines of an open file: what the successive calls of \<open>readStringUntil('\n')\<close>
  return until nothing is available.
\<close>

function fileLines :: "string \<Rightarrow> string list" where
  "fileLines rest =
     (if rest = [] then []
      else fst (readStringUntil newline rest) # fileLines (snd (readStringUntil newline rest)))"
  by pat_completeness auto
termination
proof (relation "measure length")
  show "wf (measure length)"
    by simp
next
  fix rest :: string
  assume "rest \<noteq> []"
  moreover have "length (dropWhile (\<lambda>x. x \<noteq> newline) rest) \<le> length rest"
    by (rule length_dropWhile_le)
  ultimately show "(snd (readStringUntil newline rest), rest) \<in> measure length"
    by (cases rest) (auto simp: readStringUntil_def)
qed

declare fileLines.simps [simp del]

text \<open>
  The second field of a line, as \<open>sendFile\<close> cuts it out before copying it into the
  response: \<open>line.substring(idx1 + 1, idx2)\<close>.
\<close>

definition timestampField :: "string \<Rightarrow> string" where
  "timestampField line =
     (let idx1 = indexOf line comma 0;
          idx2 = indexOf line comma (idx1 + 1)
      in substring line (idx1 + 1) idx2)"

text \<open>The index field of a frame, when it is a data response.\<close>

definition frameIndex :: "frame \<Rightarrow> u16 option" where
  "frameIndex f =
     (case f of DataFrame r \<Rightarrow> rs_index r | DataFrame0 r \<Rightarrow> Some (r0_index r) | _ \<Rightarrow> None)"

text \<open>
  The lines that \<open>sendFile\<close> has before it when its sending loop starts: those of the
  requested file after the header row and the skipped lines, none when the file is missing
  or cannot be opened.
\<close>

definition streamedLines :: "DataRequest \<Rightarrow> logger \<Rightarrow> string list" where
  "streamedLines request s =
     (if sdExists (sdFiles s) (take 12 (rq_filename request)) \<and> sdOpenOk s
      then fileLines (skipLines (unat (rq_startIndex request))
             (snd (readStringUntil newline (sdRead (sdFiles s) (take 12 (rq_filename request))))))
      else [])"


text \<open>The same for \<open>checkForRFRequests\<close> of \<open>part_000\<close>.\<close>

definition streamedLines0 :: "DataRequest \<Rightarrow> logger \<Rightarrow> string list" where
  "streamedLines0 request s =
     (if sdExists (sdFiles s) (rq_filename request) \<and> sdOpenOk s
      then fileLines (skipLines (unat (rq_startIndex request))
             (snd (readStringUntil newline (sdRead (sdFiles s) (rq_filename request)))))
      else [])"

text \<open>
  A line fits a response: it is text, that is, it holds no NUL byte (the \<open>String\<close> class
  and \<open>strcpy\<close> take a NUL for the end of the text, which the model of the class does
  not follow), and its second field has at most 16 bytes, so that \<open>strcpy\<close> stays inside
  \<open>timestamp\<close> with the closing NUL.
\<close>

definition lineFits :: "string \<Rightarrow> bool" where
  "lineFits line = (CHR 0x00 \<notin> set line \<and> length (timestampField line) \<le> 16)"

text \<open>
  The labels of a request fit: each line that the request makes \<open>sendFile\<close> parse fits
  a response.
\<close>

definition labelsFit :: "DataRequest \<Rightarrow> logger \<Rightarrow> bool" where
  "labelsFit request s =
     list_all lineFits (take (unat (rq_numSamples request)) (streamedLines request s))"

text \<open>
  The fields of the clock that \<open>formatDateTime\<close> prints have at most two digits (the year
  is printed modulo 100).
\<close>

definition clockBelow100 :: "logger \<Rightarrow> bool" where
  "clockBelow100 s =
     (unat (rtcMonth s) < 100 \<and> unat (rtcDay s) < 100 \<and> unat (rtcHours s) < 100
        \<and> unat (rtcMinutes s) < 100)"

text \<open>
  What the handler of the pending request copies or formats fits its buffer: the labels
  of a data request, the clock of a clock write.
\<close>

definition handlerFits :: "logger \<Rightarrow> bool" where
  "handlerFits s =
     (case rxQueue s of
        [] \<Rightarrow> True
      | request # queue \<Rightarrow>
          (if rq_command request = CMD_REQUEST_DATA then labelsFit request s
           else if rq_command request = CMD_MODIFY_RTC then clockBelow100 s
           else True))"

section \<open>Notions for the statements about storing and streaming back\<close>







section \<open>States used as examples\<close>

text \<open>
  The globals as their initialisers leave them, the clock at 2025-01-01 00:00:00, the
  card present and empty, the radio listening with every write acknowledged.
\<close>

definition bootState :: logger where
  "bootState =
     \<lparr>maxSamplesPerDay = 0, sampleCount = 0, samplingInterval = 10, fileNames = (\<lambda>i. []),
      fileCount = 0, filesScanned = False, currentFilename = [], sdAvailable = True,
      alarmTriggered = False, lastAlarmTime = 0,
      rtcYear = 25, rtcMonth = 1, rtcDay = 1, rtcHours = 0, rtcMinutes = 0, rtcSeconds = 0,
      alarmDay = 0, alarmHours = 0, alarmMinutes = 0, alarmSeconds = 0, alarmEnabled = False,
      sdFiles = [], sdOpenOk = True, listening = True, written = [], ackOf = (\<lambda>n. True),
      rxQueue = []\<rparr>"

text \<open>A listing request and a request for five records of the file of January 1st.\<close>

definition listRequest :: DataRequest where
  "listRequest = \<lparr>rq_command = CMD_FILE_LIST, rq_startIndex = 0, rq_numSamples = 0,
     rq_filename = [], rq_key = 0, rq_value = 0\<rparr>"

definition dataRequest :: DataRequest where
  "dataRequest = \<lparr>rq_command = CMD_REQUEST_DATA, rq_startIndex = 0, rq_numSamples = 5,
     rq_filename = ''TMP_0101.CSV'', rq_key = 0, rq_value = 0\<rparr>"

text \<open>The clock on February 14th, 2025, and a request to set the day to 30.\<close>

definition febState :: logger where
  "febState = bootState\<lparr>rtcMonth := 2, rtcDay := 14\<rparr>"

definition setDayRequest :: DataRequest where
  "setDayRequest = \<lparr>rq_command = CMD_MODIFY_RTC, rq_startIndex = 0, rq_numSamples = 0,
     rq_filename = [], rq_key = RTC_KEY_DAY, rq_value = 30\<rparr>"

text \<open>
  A card holding one log file for every day of a leap year, \<open>TMP_0101.CSV\<close> to
  \<open>TMP_1231.CSV\<close>, each with its header row only.
\<close>

definition logName :: "nat \<Rightarrow> nat \<Rightarrow> string" where
  "logName m d = ''TMP_'' @ pad2 m @ pad2 d @ ''.CSV''"

definition daysOfLeapYear :: "(nat \<times> nat) list" where
  "daysOfLeapYear =
     concat (map (\<lambda>(m, n). map (\<lambda>d. (m, d)) [1..<Suc n])
       (zip [1..<13] [31, 29, 31, 30, 31, 30, 31, 31, 30, 31, 30, 31]))"

definition leapYearStore :: logger where
  "leapYearStore =
     bootState\<lparr>sdFiles := map (\<lambda>(m, d). (logName m d, headerLine @ crlf)) daysOfLeapYear\<rparr>"

text \<open>The clock at 23:55 on the first day, the sampling interval being 10 minutes.\<close>

definition lateState :: logger where
  "lateState = bootState\<lparr>rtcHours := 23, rtcMinutes := 55\<rparr>"

text \<open>The same time of day with the card of the leap year.\<close>

definition lateLeapYearStore :: logger where
  "lateLeapYearStore = leapYearStore\<lparr>rtcHours := 23, rtcMinutes := 55\<rparr>"

text \<open>
  The first day with its file holding the header row only, the counter at the cap of a
  10 minute interval (144), the alarm fired.
\<close>

definition capState :: logger where
  "capState = bootState\<lparr>currentFilename := ''TMP_0101.CSV'',
     sdFiles := [(''TMP_0101.CSV'', headerLine @ crlf)], sampleCount := 144,
     alarmTriggered := True\<rparr>"


definition skewedState :: logger where
  "skewedState = bootState\<lparr>sdFiles :=
     [(''TMP_0101.CSV'', headerLine @ crlf @ ''7,25-01-01 00:00,1,2,3,4'' @ crlf
         @ ''7,25-01-01 00:10,5,6,7,8'' @ crlf @ ''7,25-01-01 00:20,9,9,9,9'' @ crlf)]\<rparr>"

section \<open>Theorems\<close>

text \<open>
  C9. For every interval \<open>i\<close> in 1..60, setting the sampling interval to \<open>i\<close> takes
  effect: the interval is \<open>i\<close>, the derived samples-per-day value is \<open>1440 / i\<close> (integer
  division) and the in-memory sample counter is 0. For every \<open>i\<close> outside 1..60 the setter
  changes nothing: neither the interval, nor the derived maximum, nor the counter.
\<close>

theorem setSamplingInterval_spec:
  "(1 \<le> unat i \<and> unat i \<le> 60 \<longrightarrow>
      samplingInterval (setSamplingInterval i s) = i \<and>
      unat (maxSamplesPerDay (setSamplingInterval i s)) = 1440 div unat i \<and>
      sampleCount (setSamplingInterval i s) = 0) \<and>
   (\<not> (1 \<le> unat i \<and> unat i \<le> 60) \<longrightarrow> setSamplingInterval i s = s)"
proof -
  have r: "(i \<ge> 1 \<and> i \<le> 60) = (1 \<le> unat i \<and> unat i \<le> 60)"
    by (simp add: word_le_nat_alt)
  have b: "1440 div unat i < 2 ^ 16"
    by (rule le_less_trans [OF div_le_dividend]) simp
  have u: "unat (of_nat (1440 div unat i) :: u16) = 1440 div unat i"
    using b by (simp add: unat_of_nat)
  show ?thesis
    unfolding setSamplingInterval_def r MINUTES_PER_DAY_def using u by simp
qed

theorem setSamplingInterval_spec_witness:
  "samplingInterval (setSamplingInterval 5 bootState) = 5 \<and>
   unat (maxSamplesPerDay (setSamplingInterval 5 bootState)) = 288 \<and>
   sampleCount (setSamplingInterval 5 bootState) = 0 \<and>
   setSamplingInterval 61 bootState = bootState"
  using setSamplingInterval_spec [of 5 bootState] setSamplingInterval_spec [of 61 bootState]
  by simp


subsection \<open>The listing of an empty store\<close>

lemma scanLoop_none: "\<forall>e \<in> set es. \<not> isLogName e \<Longrightarrow> scanLoop es s = s"
  by (induction es arbitrary: s) auto

lemma sendFileList_empty:
  "fileCount s = 0 \<Longrightarrow>
   sendFileList s = s\<lparr>listening := True, written := written s @ [ByteFrame CMD_LIST_END]\<rparr>"
  by (simp add: sendFileList_def Let_def stopListening_def startListening_def radioWrite_def)

text \<open>
  C1, as the spec states it, fails: for a listing request on a store without a matching
  file the handler returns having written one frame, the end marker, and no start marker.
\<close>

theorem list_empty_counterexample:
  "\<exists>t. waitForCommand (bootState\<lparr>rxQueue := [listRequest]\<rparr>) = Inr t \<and>
       written t = [ByteFrame CMD_LIST_END] \<and>
       written t \<noteq> [ByteFrame CMD_LIST_START, ByteFrame CMD_LIST_END]"
  by (simp add: waitForCommand_def Let_def scanFiles_def sendFileList_empty bootState_def
      listRequest_def)

text \<open>
  C1, amended. For a listing request (opcode \<open>CMD_FILE_LIST\<close>) when no file of the
  store matches the naming pattern, the handler returns, the device has emitted exactly one
  frame, the end marker, and no entry frame, and the radio is back in listening mode.
\<close>

theorem list_empty_end_marker_only:
  assumes "rxQueue s = request # queue"
    and "rq_command request = CMD_FILE_LIST"
    and "\<forall>name \<in> set (map fst (sdFiles s)). \<not> isLogName name"
  shows "\<exists>t. waitForCommand s = Inr t \<and>
           written t = written s @ [ByteFrame CMD_LIST_END] \<and> listening t"
  using assms
  by (auto simp: waitForCommand_def Let_def scanFiles_def scanLoop_none sendFileList_empty)

theorem list_empty_end_marker_only_witness:
  "\<exists>t. waitForCommand (bootState\<lparr>rxQueue := [listRequest], sdFiles := [(''NOTES.TXT'', [])]\<rparr>)
         = Inr t \<and>
       written t = [ByteFrame CMD_LIST_END] \<and> listening t"
  using list_empty_end_marker_only
    [of "bootState\<lparr>rxQueue := [listRequest], sdFiles := [(''NOTES.TXT'', [])]\<rparr>" listRequest "[]"]
  by (simp add: bootState_def listRequest_def isLogName_def)

subsection \<open>A request for a file that does not exist\<close>

text \<open>
  C8. For every \<open>REQUEST_DATA\<close> request naming a file that does not exist in the store
  (the name being the first 12 bytes of the field, as \<open>sendFile\<close> cuts it), the handler
  returns, the device has sent no frame and the radio ends in listening mode.
  \<open>checkForRFRequests\<close> of \<open>part_000\<close>, which uses the name as the request holds it, does
  the same.
\<close>

theorem request_missing_file:
  assumes "rxQueue s = request # queue"
    and "rq_command request = CMD_REQUEST_DATA"
  shows "(\<not> sdExists (sdFiles s) (take 12 (rq_filename request)) \<longrightarrow>
           (\<exists>t. waitForCommand s = Inr t \<and> written t = written s \<and> listening t)) \<and>
         (\<not> sdExists (sdFiles s) (rq_filename request) \<longrightarrow>
           written (checkForRFRequests s) = written s \<and> listening (checkForRFRequests s))"
  using assms
  by (simp add: waitForCommand_def checkForRFRequests_def Let_def sendFile_def stopListening_def
      startListening_def MAX_FILENAME_LENGTH_def CMD_REQUEST_DATA_def CMD_FILE_LIST_def)

theorem request_missing_file_witness:
  "(\<exists>t. waitForCommand (bootState\<lparr>rxQueue := [dataRequest]\<rparr>) = Inr t \<and>
        written t = [] \<and> listening t) \<and>
   written (checkForRFRequests (bootState\<lparr>rxQueue := [dataRequest]\<rparr>)) = [] \<and>
   listening (checkForRFRequests (bootState\<lparr>rxQueue := [dataRequest]\<rparr>))"
  using request_missing_file [of "bootState\<lparr>rxQueue := [dataRequest]\<rparr>" dataRequest "[]"]
  by (simp add: bootState_def dataRequest_def sdExists_def)

subsection \<open>Rejected clock writes\<close>

lemmas rtc_keys = RTC_KEY_MONTH_def RTC_KEY_DAY_def RTC_KEY_HOUR_def RTC_KEY_MINUTE_def
  RTC_KEY_SECOND_def RTC_KEY_YEAR_def

lemma unat_maxDaysOf: "unat (maxDaysOf now) = daysInMonth (unat (year now)) (unat (month now))"
  by (simp add: maxDaysOf_def daysInMonth_def leapYear_def word_unat_eq_iff)

text \<open>The checks of the \<open>switch\<close> are the ranges of the specification.\<close>

lemma checkField_valid: "fst (checkField key v now) = fieldInRange now key (unat v)"
  by (auto simp: checkField_def fieldInRange_def rtc_keys word_le_nat_alt word_less_nat_alt
      unat_maxDaysOf)

lemma modifyRTC_invalid:
  "\<not> fieldInRange (getCurrentDateTime s) key (unat v) \<Longrightarrow> modifyRTC key v s = Inr (False, s)"
  using checkField_valid [of key v "getCurrentDateTime s"]
  by (cases "checkField key v (getCurrentDateTime s)") (simp add: modifyRTC_def)

lemma unat_year: "unat (year (getCurrentDateTime s)) = unat (rtcYear s) + 2000"
proof -
  have "unat (rtcYear s) < 2 ^ LENGTH(8)" by (rule unsigned_less)
  then have "unat (rtcYear s) < 256" by simp
  then have "(unat (rtcYear s) + 2000) mod 2 ^ LENGTH(16) = unat (rtcYear s) + 2000"
    by simp
  moreover have "unat (of_nat (unat (rtcYear s) + 2000) :: u16)
      = (unat (rtcYear s) + 2000) mod 2 ^ LENGTH(16)"
    by (rule unat_of_nat)
  moreover have "year (getCurrentDateTime s) = of_nat (unat (rtcYear s) + 2000)"
    unfolding getCurrentDateTime_def by (rule DateTime.select_convs)
  ultimately show ?thesis by (simp only:)
qed

text \<open>
  C6. A \<open>MODIFY_RTC\<close> write of day 30 while the month is February of a non-leap year
  returns failure and leaves the whole state, the clock with it, unchanged. In general a
  write whose value is outside the range of its field (or whose key is unknown) makes
  \<open>modifyRTC\<close> return false with the state unchanged, and the handler then answers with
  the success flag 0 under the same key, the clock being as before.
\<close>

theorem modifyRTC_rejects:
  "(rtcMonth s = 2 \<and> \<not> leapYear (unat (rtcYear s) + 2000) \<longrightarrow>
      modifyRTC RTC_KEY_DAY 30 s = Inr (False, s)) \<and>
   (\<not> fieldInRange (getCurrentDateTime s) key (unat v) \<longrightarrow>
      modifyRTC key v s = Inr (False, s)) \<and>
   (rxQueue s = request # queue \<and> rq_command request = CMD_MODIFY_RTC \<and>
    \<not> fieldInRange (getCurrentDateTime s) (rq_key request) (unat (rq_value request)) \<longrightarrow>
      waitForCommand s =
        Inr (s\<lparr>rxQueue := queue,
          written := written s @ [DataFrame (uninitResponse\<lparr>rs_command := Some CMD_MODIFY_RTC,
                      rs_key := Some (rq_key request), rs_value := Some 0\<rparr>)],
          listening := True\<rparr>))"
proof (intro conjI impI)
  assume a: "rtcMonth s = 2 \<and> \<not> leapYear (unat (rtcYear s) + 2000)"
  have "\<not> fieldInRange (getCurrentDateTime s) RTC_KEY_DAY (unat (30 :: u8))"
    using a by (simp add: fieldInRange_def rtc_keys daysInMonth_def unat_year)
       (simp add: getCurrentDateTime_def)
  then show "modifyRTC RTC_KEY_DAY 30 s = Inr (False, s)"
    by (rule modifyRTC_invalid)
next
  assume "\<not> fieldInRange (getCurrentDateTime s) key (unat v)"
  then show "modifyRTC key v s = Inr (False, s)" by (rule modifyRTC_invalid)
next
  assume a: "rxQueue s = request # queue \<and> rq_command request = CMD_MODIFY_RTC \<and>
    \<not> fieldInRange (getCurrentDateTime s) (rq_key request) (unat (rq_value request))"
  then have "\<not> fieldInRange (getCurrentDateTime (s\<lparr>rxQueue := queue\<rparr>)) (rq_key request)
      (unat (rq_value request))"
    by (simp add: getCurrentDateTime_def)
  then have m: "modifyRTC (rq_key request) (rq_value request) (s\<lparr>rxQueue := queue\<rparr>)
      = Inr (False, s\<lparr>rxQueue := queue\<rparr>)"
    by (rule modifyRTC_invalid)
  from a show "waitForCommand s =
        Inr (s\<lparr>rxQueue := queue,
          written := written s @ [DataFrame (uninitResponse\<lparr>rs_command := Some CMD_MODIFY_RTC,
                      rs_key := Some (rq_key request), rs_value := Some 0\<rparr>)],
          listening := True\<rparr>)"
    by (simp add: waitForCommand_def Let_def m stopListening_def startListening_def radioWrite_def
        CMD_MODIFY_RTC_def CMD_FILE_LIST_def CMD_REQUEST_DATA_def)
qed

theorem modifyRTC_rejects_witness:
  "modifyRTC RTC_KEY_DAY 30 febState = Inr (False, febState) \<and>
   modifyRTC RTC_KEY_HOUR 24 febState = Inr (False, febState) \<and>
   waitForCommand (febState\<lparr>rxQueue := [setDayRequest]\<rparr>) =
     Inr (febState\<lparr>written :=
       [DataFrame (uninitResponse\<lparr>rs_command := Some CMD_MODIFY_RTC,
                      rs_key := Some RTC_KEY_DAY, rs_value := Some 0\<rparr>)]\<rparr>)"
  using modifyRTC_rejects [of febState RTC_KEY_HOUR 24 setDayRequest "[]"]
    modifyRTC_rejects [of "febState\<lparr>rxQueue := [setDayRequest]\<rparr>" RTC_KEY_DAY 30 setDayRequest "[]"]
  by (simp add: febState_def bootState_def setDayRequest_def leapYear_def fieldInRange_def
      daysInMonth_def rtc_keys getCurrentDateTime_def)

subsection \<open>Retention\<close>

text \<open>
  The enumeration loop either counts all matching names, when they fit the array, or
  stores outside the array.
\<close>

lemma collectNames_count:
  "cnt \<le> MAX_DAYS \<Longrightarrow>
   (cnt + length (filter isLogName es) \<le> MAX_DAYS \<longrightarrow>
      (\<exists>arr'. collectNames es arr cnt = Inr (arr', cnt + length (filter isLogName es)))) \<and>
   (cnt + length (filter isLogName es) > MAX_DAYS \<longrightarrow>
      collectNames es arr cnt = Inl OutOfBounds)"
proof (induction es arbitrary: arr cnt)
  case Nil
  then show ?case by simp
next
  case (Cons e es)
  show ?case
  proof (cases "isLogName e")
    case False
    with Cons show ?thesis by simp
  next
    case True
    show ?thesis
    proof (cases "cnt < MAX_DAYS")
      case lt: True
      then have "cnt + 1 \<le> MAX_DAYS" by simp
      from Cons.IH [OF this] True lt show ?thesis by simp
    next
      case False
      with True Cons.prems show ?thesis by simp
    qed
  qed
qed

lemma cleanupOldFiles_overflow:
  assumes "sdAvailable s" and "sdOpenOk s"
    and "length (filter isLogName (map fst (sdFiles s))) > MAX_DAYS"
  shows "cleanupOldFiles s = Inl OutOfBounds"
  using assms collectNames_count [of 0 "map fst (sdFiles s)" "\<lambda>i. []"]
  by (simp add: cleanupOldFiles_def)

lemma collectNames_result:
  "collectNames es (\<lambda>i. []) 0 = Inl OutOfBounds \<or>
   (\<exists>arr' n. collectNames es (\<lambda>i. []) 0 = Inr (arr', n) \<and> n \<le> MAX_DAYS)"
  using collectNames_count [of 0 es "\<lambda>i. []"]
  by (cases "length (filter isLogName es) \<le> MAX_DAYS") auto

text \<open>
  So the branch that sorts and deletes is never taken: \<open>cleanupOldFiles\<close> leaves the
  state as it is, or it has stored outside its array.
\<close>

lemma cleanupOldFiles_keeps:
  "cleanupOldFiles s = Inl OutOfBounds \<or> cleanupOldFiles s = Inr s"
  using collectNames_result [of "if sdOpenOk s then map fst (sdFiles s) else []"]
  by (auto simp: cleanupOldFiles_def)

lemma cleanupOldFiles_within:
  assumes "length (filter isLogName (map fst (sdFiles s))) \<le> MAX_DAYS"
  shows "cleanupOldFiles s = Inr s"
proof -
  have "\<exists>arr'. collectNames es (\<lambda>i. []) 0 = Inr (arr', length (filter isLogName es))"
    if "length (filter isLogName es) \<le> MAX_DAYS" for es
    using that collectNames_count [of 0 es "\<lambda>i. []"] by simp
  from this [of "map fst (sdFiles s)"] this [of "[]"] assms show ?thesis
    by (auto simp: cleanupOldFiles_def)
qed

lemma length_showNat_small: "n < 10 \<Longrightarrow> length (showNat n) = 1"
  by (subst showNat.simps) simp

lemma length_pad2: "n < 100 \<Longrightarrow> length (pad2 n) = 2"
proof -
  assume n: "n < 100"
  show ?thesis
  proof (cases "n < 10")
    case True
    then show ?thesis by (simp add: pad2_def length_showNat_small)
  next
    case False
    with n have "n div 10 < 10" by simp
    with False show ?thesis
      by (simp add: pad2_def) (subst showNat.simps, simp add: length_showNat_small)
  qed
qed

lemma isLogName_logName: "m < 100 \<Longrightarrow> d < 100 \<Longrightarrow> isLogName (logName m d)"
  by (simp add: isLogName_def logName_def length_pad2)

lemma length_daysOfLeapYear: "length daysOfLeapYear = 366"
  by (simp add: daysOfLeapYear_def upt_rec [of _ 13])

lemma daysOfLeapYear_small: "\<forall>(m, d) \<in> set daysOfLeapYear. m < 100 \<and> d < 100"
  by (auto simp: daysOfLeapYear_def upt_rec [of _ 13] dest!: set_zip_leftD)

text \<open>
  C4 at its own example. With the 366 files of a leap year on the card, retention
  enforcement does not delete the 6 smallest names: the 361st name is stored at
  \<open>fileNames[360]\<close>, outside the array of \<open>MAX_DAYS = 360\<close> names, before the sort is
  reached.
\<close>

theorem cleanup_leap_year:
  "length (sdFiles leapYearStore) = 366 \<and> cleanupOldFiles leapYearStore = Inl OutOfBounds"
proof -
  have "filter isLogName (map fst (sdFiles leapYearStore)) = map fst (sdFiles leapYearStore)"
    using daysOfLeapYear_small
    by (auto simp: leapYearStore_def filter_id_conv isLogName_logName)
  then have "length (filter isLogName (map fst (sdFiles leapYearStore))) = 366"
    by (simp add: leapYearStore_def length_daysOfLeapYear)
  then have "cleanupOldFiles leapYearStore = Inl OutOfBounds"
    by (intro cleanupOldFiles_overflow) (simp_all add: leapYearStore_def bootState_def MAX_DAYS_def)
  then show ?thesis by (simp add: leapYearStore_def length_daysOfLeapYear)
qed


subsection \<open>The next alarm\<close>

lemma unat_of_nat_u8: "n < 256 \<Longrightarrow> unat (of_nat n :: u8) = n"
  by (simp add: unat_of_nat)

lemma alarm_minute: "unat (of_nat (n mod 60) :: u8) = n mod 60"
proof -
  have "n mod 60 < 256" by (rule less_trans [of _ 60]) simp_all
  then show ?thesis by (rule unat_of_nat_u8)
qed

lemma alarm_hour: "unat (of_nat (n mod 24) :: u8) = n mod 24"
proof -
  have "n mod 24 < 256" by (rule less_trans [of _ 24]) simp_all
  then show ?thesis by (rule unat_of_nat_u8)
qed

lemma setupNextAlarm_Inr:
  assumes "setupNextAlarm s = Inr t"
  shows "unat (alarmMinutes t) = (unat (rtcMinutes s) + unat (samplingInterval s)) mod 60 \<and>
     unat (alarmHours t) =
       (if (unat (rtcMinutes s) + unat (samplingInterval s)) mod 60 < unat (rtcMinutes s)
        then (unat (rtcHours s) + 1) mod 24 else unat (rtcHours s)) \<and>
     alarmSeconds t = 0 \<and> alarmEnabled t"
  using assms
  by (auto simp: setupNextAlarm_def Let_def getCurrentDateTime_def word_less_nat_alt
      alarm_minute alarm_hour simp del: of_nat_add of_nat_Suc split: sum.splits if_splits)

text \<open>
  At 23:55 with an interval of 10 minutes the minute wraps and the hour wraps:
  \<open>setupNextAlarm\<close> is \<open>cleanupOldFiles\<close> followed by the programming of 00:05:00.
\<close>

lemma setupNextAlarm_day_carry:
  assumes "rtcHours s = 23" and "rtcMinutes s = 55" and "samplingInterval s = 10"
  shows "setupNextAlarm s =
        (case cleanupOldFiles s of
           Inl f \<Rightarrow> Inl f
         | Inr s1 \<Rightarrow> Inr (s1\<lparr>alarmDay := rtcDay s1, alarmHours := 0, alarmMinutes := 5,
                            alarmSeconds := 0, alarmEnabled := True, lastAlarmTime := 300\<rparr>))"
  using assms
  by (cases "cleanupOldFiles s") (simp_all add: setupNextAlarm_def Let_def getCurrentDateTime_def)

text \<open>
  While the log files fit the retention array (at most 360 of them) the alarm is
  programmed for 00:05:00 and the card is left as it is.
\<close>

lemma setupNextAlarm_day_carry_within:
  assumes "rtcHours s = 23" and "rtcMinutes s = 55" and "samplingInterval s = 10"
    and "length (filter isLogName (map fst (sdFiles s))) \<le> MAX_DAYS"
  shows "setupNextAlarm s =
     Inr (s\<lparr>alarmDay := rtcDay s, alarmHours := 0, alarmMinutes := 5,
            alarmSeconds := 0, alarmEnabled := True, lastAlarmTime := 300\<rparr>)"
  by (simp add: setupNextAlarm_day_carry [OF assms(1-3)] cleanupOldFiles_within [OF assms(4)])

text \<open>
  With more log files than that, which is when retention has something to delete, the
  call of \<open>cleanupOldFiles\<close> stores outside its array and \<open>setupNextAlarm\<close> does not reach
  the programming of the alarm.
\<close>

lemma setupNextAlarm_day_carry_overflow:
  assumes "rtcHours s = 23" and "rtcMinutes s = 55" and "samplingInterval s = 10"
    and "sdAvailable s" and "sdOpenOk s"
    and "length (filter isLogName (map fst (sdFiles s))) > MAX_DAYS"
  shows "setupNextAlarm s = Inl OutOfBounds"
  by (simp add: setupNextAlarm_day_carry [OF assms(1-3)] cleanupOldFiles_overflow [OF assms(4-6)])

lemma lateLeapYearStore_names:
  "length (filter isLogName (map fst (sdFiles lateLeapYearStore))) = 366"
proof -
  have "filter isLogName (map fst (sdFiles lateLeapYearStore))
      = map fst (sdFiles lateLeapYearStore)"
    using daysOfLeapYear_small
    by (auto simp: lateLeapYearStore_def leapYearStore_def filter_id_conv isLogName_logName)
  then show ?thesis
    by (simp add: lateLeapYearStore_def leapYearStore_def length_daysOfLeapYear)
qed

text \<open>
  C5 at a card on which retention has work to do. The clock shows 23:55, the interval is
  10 minutes and the card holds the 366 log files of a leap year. \<open>setupNextAlarm\<close> takes
  the day-carry branch and calls \<open>cleanupOldFiles\<close>, which stores the 361st name outside
  its array; the alarm is not programmed for 00:05.
\<close>

theorem day_carry_leap_year:
  "rtcHours lateLeapYearStore = 23 \<and> rtcMinutes lateLeapYearStore = 55 \<and>
   samplingInterval lateLeapYearStore = 10 \<and>
   length (filter isLogName (map fst (sdFiles lateLeapYearStore))) = 366 \<and>
   setupNextAlarm lateLeapYearStore = Inl OutOfBounds"
proof -
  have f: "rtcHours lateLeapYearStore = 23" "rtcMinutes lateLeapYearStore = 55"
    "samplingInterval lateLeapYearStore = 10" "sdAvailable lateLeapYearStore"
    "sdOpenOk lateLeapYearStore"
    by (simp_all add: lateLeapYearStore_def leapYearStore_def bootState_def)
  have "length (filter isLogName (map fst (sdFiles lateLeapYearStore))) > MAX_DAYS"
    unfolding lateLeapYearStore_names by (simp add: MAX_DAYS_def)
  from setupNextAlarm_day_carry_overflow [OF f this] f lateLeapYearStore_names
  show ?thesis by simp
qed

text \<open>
  Away from midnight the same card is not looked at: at 00:00 the alarm is programmed for
  00:10:00.
\<close>

lemma no_carry_leap_year:
  "setupNextAlarm leapYearStore =
     Inr (leapYearStore\<lparr>alarmDay := 1, alarmHours := 0, alarmMinutes := 10, alarmSeconds := 0,
                         alarmEnabled := True, lastAlarmTime := 600\<rparr>)"
  by (simp add: setupNextAlarm_def Let_def getCurrentDateTime_def leapYearStore_def bootState_def)

text \<open>On the card of the first day, which holds no log file, the alarm is programmed.\<close>

lemma day_carry_lateState:
  "setupNextAlarm lateState =
     Inr (lateState\<lparr>alarmDay := 1, alarmHours := 0, alarmMinutes := 5, alarmSeconds := 0,
                    alarmEnabled := True, lastAlarmTime := 300\<rparr>)"
proof -
  have "setupNextAlarm lateState =
     Inr (lateState\<lparr>alarmDay := rtcDay lateState, alarmHours := 0, alarmMinutes := 5,
            alarmSeconds := 0, alarmEnabled := True, lastAlarmTime := 300\<rparr>)"
    by (rule setupNextAlarm_day_carry_within) (simp_all add: lateState_def bootState_def)
  then show ?thesis by (simp add: lateState_def bootState_def)
qed

subsection \<open>The cycle at the cap\<close>

lemma map_of_sdAppend:
  "map_of (sdAppend fs name bytes) =
     (map_of fs)(name \<mapsto> (case map_of fs name of None \<Rightarrow> bytes | Some c \<Rightarrow> c @ bytes))"
  by (induction fs) (auto simp: fun_eq_iff)

lemma sdRead_sdAppend: "sdRead (sdAppend fs name bytes) name = sdRead fs name @ bytes"
  by (simp add: sdRead_def map_of_sdAppend split: option.splits)


text \<open>A record stored in a file that exists leaves the directory as it is.\<close>

lemma names_sdAppend:
  "sdExists fs name \<Longrightarrow> map fst (sdAppend fs name bytes) = map fst fs"
  by (induction fs) (auto simp: sdExists_def)

lemma setupNextAlarm_store:
  assumes "setupNextAlarm s = Inr t"
  shows "sdFiles t = sdFiles s \<and> sampleCount t = sampleCount s"
  using assms cleanupOldFiles_keeps [of s]
  by (auto simp: setupNextAlarm_def Let_def split: sum.splits if_splits)

lemma setupNextAlarm_total:
  assumes "length (filter isLogName (map fst (sdFiles s))) \<le> MAX_DAYS"
  shows "\<exists>t. setupNextAlarm s = Inr t"
  using cleanupOldFiles_within [OF assms]
  by (simp add: setupNextAlarm_def Let_def)

lemma unat_cap: "unat (of_nat (MINUTES_PER_DAY div n) :: u16) = MINUTES_PER_DAY div n"
proof -
  have "MINUTES_PER_DAY div n \<le> MINUTES_PER_DAY" by (rule div_le_dividend)
  also have "MINUTES_PER_DAY < 2 ^ LENGTH(16)" by (simp add: MINUTES_PER_DAY_def)
  finally show ?thesis by (simp only: unat_of_nat mod_less)
qed

lemma cap_word:
  "MINUTES_PER_DAY div n \<le> unat (c :: u16) \<Longrightarrow> (of_nat (MINUTES_PER_DAY div n) :: u16) \<le> c"
  by (simp only: word_le_nat_alt unat_cap)

text \<open>At the cap \<open>takeMeasurement\<close> of \<open>part_000\<close> returns before it touches the card.\<close>

lemma takeMeasurement0_cap:
  assumes "samplingInterval s \<noteq> 0"
    and "MINUTES_PER_DAY div unat (samplingInterval s) \<le> unat (sampleCount s)"
  shows "takeMeasurement0 temperature s =
     Inr (s\<lparr>maxSamplesPerDay := of_nat (MINUTES_PER_DAY div unat (samplingInterval s))\<rparr>)"
  using cap_word [OF assms(2)] assms(1) by (simp add: takeMeasurement0_def Let_def del: of_nat_div)

text \<open>The name of the file of the day fits \<open>currentFilename\<close> and \<open>newFilename\<close>.\<close>

lemma length_pad2_u8: "n < 256 \<Longrightarrow> length (pad2 n) \<le> 3"
proof -
  assume n: "n < 256"
  show ?thesis
  proof (cases "n < 100")
    case True
    then show ?thesis by (simp add: length_pad2)
  next
    case False
    with n have d: "\<not> n div 10 < 10" "n div 10 div 10 < 10" by simp_all
    from False have "\<not> n < 10" by simp
    then have "showNat n = showNat (n div 10) @ [digitChar (n mod 10)]"
      by (subst showNat.simps) simp
    moreover from d(1) have "showNat (n div 10)
        = showNat (n div 10 div 10) @ [digitChar (n div 10 mod 10)]"
      by (subst showNat.simps) simp
    ultimately show ?thesis
      using False length_showNat_small [OF d(2)] by (simp add: pad2_def)
  qed
qed

lemma length_fileNameFor: "length (fileNameFor now) < 16"
proof -
  have u: "unat x < 256" for x :: u8
    using unsigned_less [of x, where 'a = nat] by simp
  from length_pad2_u8 [OF u [of "month now"]] length_pad2_u8 [OF u [of "day now"]]
  show ?thesis by (simp add: fileNameFor_def)
qed

lemma formatDateTime_fits:
  "length (dateTimeText dt) \<le> 16 \<Longrightarrow> formatDateTime dt = Inr (dateTimeText dt)"
  by (simp add: formatDateTime_def intoBuffer_def)

lemma updateCurrentFilename_exists:
  assumes "sdAvailable s" and "sdOpenOk s"
    and "sdExists (sdFiles s) (fileNameFor (getCurrentDateTime s))"
  shows "updateCurrentFilenameWith h s =
     s\<lparr>currentFilename := fileNameFor (getCurrentDateTime s),
       sampleCount := countLines (snd (readStringUntil newline
         (sdRead (sdFiles s) (fileNameFor (getCurrentDateTime s))))) 0\<rparr>"
  using assms by (simp add: updateCurrentFilenameWith_def Let_def)

text \<open>
  With the card available, the file of the day on it and a label that fits its buffer,
  \<open>takeMeasurement\<close> of \<open>part_001\<close> appends one record to the file of the day, whatever
  the counter is: at the cap (or on a new day) the record is numbered 0, otherwise it is
  numbered by the counter.
\<close>

lemma takeMeasurement_appends:
  assumes "samplingInterval s \<noteq> 0" and "sdAvailable s" and "sdOpenOk s"
    and "sdExists (sdFiles s) (fileNameFor (getCurrentDateTime s))"
    and "length (dateTimeText (getCurrentDateTime s)) \<le> 16"
  shows "\<exists>c. takeMeasurement r s =
     Inr (s\<lparr>maxSamplesPerDay := of_nat (MINUTES_PER_DAY div unat (samplingInterval s)),
            currentFilename := fileNameFor (getCurrentDateTime s),
            sdFiles := sdAppend (sdFiles s) (fileNameFor (getCurrentDateTime s))
                         (recordLine c (dateTimeText (getCurrentDateTime s)) r),
            sampleCount := c + 1\<rparr>)"
proof -
  let ?name = "fileNameFor (getCurrentDateTime s)"
  let ?cap = "of_nat (MINUTES_PER_DAY div unat (samplingInterval s)) :: u16"
  let ?s1 = "s\<lparr>maxSamplesPerDay := ?cap\<rparr>"
  have now: "getCurrentDateTime (s\<lparr>maxSamplesPerDay := m\<rparr>) = getCurrentDateTime s"
    "getCurrentDateTime (s\<lparr>maxSamplesPerDay := m, currentFilename := n\<rparr>) = getCurrentDateTime s"
    for m n
    by (simp_all add: getCurrentDateTime_def)
  note f = formatDateTime_fits [OF assms(5)]
  show ?thesis
  proof (cases "?name \<noteq> currentFilename s \<or> ?cap \<le> sampleCount s")
    case True
    have u: "updateCurrentFilename (?s1\<lparr>currentFilename := ?name\<rparr>) =
       ?s1\<lparr>currentFilename := ?name,
         sampleCount := countLines (snd (readStringUntil newline (sdRead (sdFiles s) ?name))) 0\<rparr>"
      unfolding updateCurrentFilename_def
      using updateCurrentFilename_exists [of "?s1\<lparr>currentFilename := ?name\<rparr>" headerLine] assms(2-4)
      by (simp add: now)
    have "takeMeasurement r s =
     Inr (s\<lparr>maxSamplesPerDay := ?cap, currentFilename := ?name,
            sdFiles := sdAppend (sdFiles s) ?name (recordLine 0 (dateTimeText (getCurrentDateTime s)) r),
            sampleCount := 0 + 1\<rparr>)"
      using True assms(1-3)
      by (simp add: takeMeasurement_def Let_def now f u storeSample_def del: of_nat_div)
    then show ?thesis ..
  next
    case False
    then have n: "currentFilename s = ?name" by simp
    have "takeMeasurement r s =
     Inr (s\<lparr>maxSamplesPerDay := ?cap, currentFilename := ?name,
            sdFiles := sdAppend (sdFiles s) ?name
              (recordLine (sampleCount s) (dateTimeText (getCurrentDateTime s)) r),
            sampleCount := sampleCount s + 1\<rparr>)"
      using False assms(1-3)
      by (simp add: takeMeasurement_def Let_def now f storeSample_def n [symmetric] del: of_nat_div)
    then show ?thesis ..
  qed
qed

text \<open>
  C2, as the spec states it, fails on \<open>part_001\<close>: with the counter at the cap and the
  day unchanged, the cycle returns with a record appended to the file and the counter
  changed.
\<close>

theorem cap_reached_counterexample:
  "MINUTES_PER_DAY div unat (samplingInterval capState) \<le> unat (sampleCount capState) \<and>
   currentFilename capState = fileNameFor (getCurrentDateTime capState) \<and>
   sampleCount capState = 144 \<and>
   map_sum id sampleCount (measurementCycle (1, 2, 3, 4) capState) = Inr 1 \<and>
   sdFiles capState = [(''TMP_0101.CSV'', headerLine @ crlf)] \<and>
   map_sum id sdFiles (measurementCycle (1, 2, 3, 4) capState) =
     Inr [(''TMP_0101.CSV'', headerLine @ crlf @ ''0,25-01-01 00:00,1,2,3,4'' @ crlf)]"
  by code_simp

text \<open>
  C2, amended. Let the sampling interval be nonzero, the counter have reached the cap
  (\<open>count \<ge> 1440 / interval\<close>), the day be unchanged (the active file is the file of the
  day) and the card hold at most 360 log files. In the variant of \<open>part_000\<close> the
  measurement cycle returns and has skipped persistence: no record is appended, the
  counter is unchanged, and the next alarm is programmed. In the variant of \<open>part_001\<close>
  the cycle does not skip persistence: when the card is available, the active file exists
  and can be opened and the label of the time fits its 17-byte buffer, the cycle returns
  with one record of the sample appended to the active file, and the next alarm is
  programmed. Programmed means: enabled, at second 0, minute \<open>(minute + interval) mod 60\<close>
  and the hour, or \<open>(hour + 1) mod 24\<close> when the minute wrapped.
\<close>

theorem cap_reached_cycle:
  assumes "samplingInterval s \<noteq> 0"
    and "MINUTES_PER_DAY div unat (samplingInterval s) \<le> unat (sampleCount s)"
    and "currentFilename s = fileNameFor (getCurrentDateTime s)"
    and "length (filter isLogName (map fst (sdFiles s))) \<le> MAX_DAYS"
  shows
   "(\<exists>t. measurementCycle0 temperature s = Inr t \<and>
         sdFiles t = sdFiles s \<and> sampleCount t = sampleCount s \<and>
         alarmEnabled t \<and> alarmSeconds t = 0 \<and>
         unat (alarmMinutes t) = (unat (rtcMinutes s) + unat (samplingInterval s)) mod 60 \<and>
         unat (alarmHours t) =
           (if (unat (rtcMinutes s) + unat (samplingInterval s)) mod 60 < unat (rtcMinutes s)
            then (unat (rtcHours s) + 1) mod 24 else unat (rtcHours s))) \<and>
    (sdAvailable s \<and> sdOpenOk s \<and> sdExists (sdFiles s) (currentFilename s) \<and>
     length (dateTimeText (getCurrentDateTime s)) \<le> 16 \<longrightarrow>
       (\<exists>t c. measurementCycle r s = Inr t \<and>
          sdRead (sdFiles t) (currentFilename s) =
            sdRead (sdFiles s) (currentFilename s)
              @ recordLine c (dateTimeText (getCurrentDateTime s)) r \<and>
          alarmEnabled t \<and> alarmSeconds t = 0 \<and>
          unat (alarmMinutes t) = (unat (rtcMinutes s) + unat (samplingInterval s)) mod 60 \<and>
          unat (alarmHours t) =
            (if (unat (rtcMinutes s) + unat (samplingInterval s)) mod 60 < unat (rtcMinutes s)
             then (unat (rtcHours s) + 1) mod 24 else unat (rtcHours s))))"
proof (intro conjI impI)
  let ?s0 = "s\<lparr>alarmTriggered := False\<rparr>"
  let ?s1 = "s\<lparr>alarmTriggered := False,
        maxSamplesPerDay := of_nat (MINUTES_PER_DAY div unat (samplingInterval s))\<rparr>"
  have i0: "samplingInterval ?s0 \<noteq> 0"
    using assms(1) by simp
  have cap0: "MINUTES_PER_DAY div unat (samplingInterval ?s0) \<le> unat (sampleCount ?s0)"
    using assms(2) by simp
  have now: "getCurrentDateTime ?s0 = getCurrentDateTime s"
    by (simp add: getCurrentDateTime_def)
  have tm0: "takeMeasurement0 temperature ?s0 = Inr ?s1"
    using takeMeasurement0_cap [OF i0 cap0] by simp
  have c0: "measurementCycle0 temperature s = setupNextAlarm ?s1"
    by (simp add: measurementCycle0_def tm0)
  have "length (filter isLogName (map fst (sdFiles ?s1))) \<le> MAX_DAYS"
    using assms(4) by simp
  from setupNextAlarm_total [OF this] obtain t where t: "setupNextAlarm ?s1 = Inr t" ..
  from setupNextAlarm_store [OF t] setupNextAlarm_Inr [OF t] t
  show "\<exists>t. measurementCycle0 temperature s = Inr t \<and>
         sdFiles t = sdFiles s \<and> sampleCount t = sampleCount s \<and>
         alarmEnabled t \<and> alarmSeconds t = 0 \<and>
         unat (alarmMinutes t) = (unat (rtcMinutes s) + unat (samplingInterval s)) mod 60 \<and>
         unat (alarmHours t) =
           (if (unat (rtcMinutes s) + unat (samplingInterval s)) mod 60 < unat (rtcMinutes s)
            then (unat (rtcHours s) + 1) mod 24 else unat (rtcHours s))"
    by (simp add: c0)
  assume a: "sdAvailable s \<and> sdOpenOk s \<and> sdExists (sdFiles s) (currentFilename s) \<and>
     length (dateTimeText (getCurrentDateTime s)) \<le> 16"
  let ?name = "fileNameFor (getCurrentDateTime s)"
  have h: "sdAvailable ?s0" "sdOpenOk ?s0" "sdExists (sdFiles ?s0) (fileNameFor (getCurrentDateTime ?s0))"
    "length (dateTimeText (getCurrentDateTime ?s0)) \<le> 16"
    using a assms(3) by (simp_all add: now)
  from takeMeasurement_appends [OF i0 h, of r] obtain c where
    tm: "takeMeasurement r ?s0 =
       Inr (?s0\<lparr>maxSamplesPerDay := of_nat (MINUTES_PER_DAY div unat (samplingInterval ?s0)),
            currentFilename := ?name,
            sdFiles := sdAppend (sdFiles s) ?name (recordLine c (dateTimeText (getCurrentDateTime s)) r),
            sampleCount := c + 1\<rparr>)"
    by (auto simp: now)
  let ?T = "?s0\<lparr>maxSamplesPerDay := of_nat (MINUTES_PER_DAY div unat (samplingInterval ?s0)),
            currentFilename := ?name,
            sdFiles := sdAppend (sdFiles s) ?name (recordLine c (dateTimeText (getCurrentDateTime s)) r),
            sampleCount := c + 1\<rparr>"
  have c1: "measurementCycle r s = setupNextAlarm ?T"
    by (simp only: measurementCycle_def tm sum.case)
  have "map fst (sdFiles ?T) = map fst (sdFiles s)"
    using a assms(3) by (simp add: names_sdAppend)
  then have "length (filter isLogName (map fst (sdFiles ?T))) \<le> MAX_DAYS"
    using assms(4) by (simp only:)
  from setupNextAlarm_total [OF this] obtain u where u: "setupNextAlarm ?T = Inr u" ..
  from setupNextAlarm_store [OF u] setupNextAlarm_Inr [OF u]
  have "measurementCycle r s = Inr u \<and>
          sdRead (sdFiles u) (currentFilename s) =
            sdRead (sdFiles s) (currentFilename s)
              @ recordLine c (dateTimeText (getCurrentDateTime s)) r \<and>
          alarmEnabled u \<and> alarmSeconds u = 0 \<and>
          unat (alarmMinutes u) = (unat (rtcMinutes s) + unat (samplingInterval s)) mod 60 \<and>
          unat (alarmHours u) =
            (if (unat (rtcMinutes s) + unat (samplingInterval s)) mod 60 < unat (rtcMinutes s)
             then (unat (rtcHours s) + 1) mod 24 else unat (rtcHours s))"
    using u assms(3) by (simp add: c1 sdRead_sdAppend)
  then show "\<exists>t c. measurementCycle r s = Inr t \<and>
          sdRead (sdFiles t) (currentFilename s) =
            sdRead (sdFiles s) (currentFilename s)
              @ recordLine c (dateTimeText (getCurrentDateTime s)) r \<and>
          alarmEnabled t \<and> alarmSeconds t = 0 \<and>
          unat (alarmMinutes t) = (unat (rtcMinutes s) + unat (samplingInterval s)) mod 60 \<and>
          unat (alarmHours t) =
            (if (unat (rtcMinutes s) + unat (samplingInterval s)) mod 60 < unat (rtcMinutes s)
             then (unat (rtcHours s) + 1) mod 24 else unat (rtcHours s))"
    by blast
qed

theorem cap_reached_cycle_witness:
  "(\<exists>t. measurementCycle0 ''21.50'' capState = Inr t \<and> sdFiles t = sdFiles capState \<and>
        sampleCount t = 144 \<and> alarmEnabled t \<and> unat (alarmMinutes t) = 10) \<and>
   (\<exists>t c. measurementCycle (1, 2, 3, 4) capState = Inr t \<and>
        sdRead (sdFiles t) ''TMP_0101.CSV'' =
          headerLine @ crlf @ recordLine c ''25-01-01 00:00'' (1, 2, 3, 4) \<and>
        alarmEnabled t \<and> unat (alarmMinutes t) = 10)"
proof -
  have a: "samplingInterval capState \<noteq> 0"
    "MINUTES_PER_DAY div unat (samplingInterval capState) \<le> unat (sampleCount capState)"
    "currentFilename capState = fileNameFor (getCurrentDateTime capState)"
    "length (filter isLogName (map fst (sdFiles capState))) \<le> MAX_DAYS"
    by code_simp+
  have b: "sdAvailable capState \<and> sdOpenOk capState \<and>
    sdExists (sdFiles capState) (currentFilename capState) \<and>
    length (dateTimeText (getCurrentDateTime capState)) \<le> 16"
    by code_simp
  have v: "sampleCount capState = 144" "currentFilename capState = ''TMP_0101.CSV''"
    "sdRead (sdFiles capState) ''TMP_0101.CSV'' = headerLine @ crlf"
    "dateTimeText (getCurrentDateTime capState) = ''25-01-01 00:00''"
    "rtcMinutes capState = 0" "samplingInterval capState = 10"
    by code_simp+
  from cap_reached_cycle [OF a, of "''21.50''" "(1, 2, 3, 4)"] b show ?thesis
    unfolding v by simp blast
qed

subsection \<open>Printing and parsing a record\<close>




















subsection \<open>Streaming\<close>

text \<open>
  The response of a line is built when the second field of the line fits \<open>timestamp\<close>;
  otherwise the copy runs outside the field.
\<close>

lemma lineResponse_fits:
  "lineFits line \<Longrightarrow>
   \<exists>response. lineResponse start k line = Inr response \<and>
     rs_index response = Some (start + of_nat k)"
  by (simp add: lineFits_def lineResponse_def timestampField_def Let_def intoBuffer_def)

lemma lineResponse_overflow:
  "16 < length (timestampField line) \<Longrightarrow> lineResponse start k line = Inl OutOfBounds"
  by (simp add: lineResponse_def timestampField_def Let_def intoBuffer_def)

lemma sendLoop_fits:
  assumes "list_all lineFits
     (take (unat (rq_numSamples request) - counter) (fileLines rest))"
  shows "\<exists>t. sendLoop request counter rest s = Inr t \<and> listening t = listening s \<and>
     written t = written s
       @ map (\<lambda>(k, line). DataFrame (projr (lineResponse (rq_startIndex request) k line)))
           (zip [counter..<unat (rq_numSamples request)] (fileLines rest))"
  using assms
proof (induction request counter rest s rule: sendLoop.induct)
  case (1 request counter rest s)
  show ?case
  proof (cases "rest \<noteq> [] \<and> counter < unat (rq_numSamples request)")
    case True
    obtain line rest' where r: "readStringUntil newline rest = (line, rest')"
      by (cases "readStringUntil newline rest")
    have fl: "fileLines rest = line # fileLines rest'"
      using True r by (subst fileLines.simps) simp
    have up: "[counter..<unat (rq_numSamples request)]
        = counter # [counter + 1..<unat (rq_numSamples request)]"
      using True by (simp add: upt_conv_Cons)
    from True have "counter < unat (rq_numSamples request)" by simp
    then have n: "unat (rq_numSamples request) - counter
        = Suc (unat (rq_numSamples request) - (counter + 1))"
      by arith
    from "1.prems" have fit: "lineFits line"
      and fits: "list_all lineFits
        (take (unat (rq_numSamples request) - (counter + 1)) (fileLines rest'))"
      unfolding fl n by simp_all
    from lineResponse_fits [OF fit] obtain response
      where lr: "lineResponse (rq_startIndex request) counter line = Inr response"
      by blast
    from "1.IH" [OF True r [symmetric] lr fits] True r lr show ?thesis
      by (subst sendLoop.simps) (simp add: radioWrite_def fl up)
  next
    case False
    then have "zip [counter..<unat (rq_numSamples request)] (fileLines rest) = []"
      by (subst fileLines.simps) auto
    with False show ?thesis by (subst sendLoop.simps) auto
  qed
qed

text \<open>Whenever the sending loop returns it has left the radio mode as it was.\<close>

lemma sendLoop_listening:
  "sendLoop request counter rest s = Inr t \<Longrightarrow> listening t = listening s"
proof (induction request counter rest s rule: sendLoop.induct)
  case (1 request counter rest s)
  show ?case
  proof (cases "rest \<noteq> [] \<and> counter < unat (rq_numSamples request)")
    case True
    obtain line rest' where r: "readStringUntil newline rest = (line, rest')"
      by (cases "readStringUntil newline rest")
    from "1.prems" True r obtain response
      where lr: "lineResponse (rq_startIndex request) counter line = Inr response"
        and t: "sendLoop request (counter + 1) rest' (snd (radioWrite (DataFrame response) s)) = Inr t"
      by (subst (asm) sendLoop.simps) (auto split: sum.splits)
    from "1.IH" [OF True r [symmetric] lr t] show ?thesis
      by (simp add: radioWrite_def)
  next
    case False
    with "1.prems" show ?thesis by (subst (asm) sendLoop.simps) auto
  qed
qed

lemma sendFile_listening: "sendFile request s = Inr t \<Longrightarrow> listening t"
  by (auto simp: sendFile_def Let_def startListening_def split: if_splits sum.splits)

lemma sendFile_fits:
  assumes "labelsFit request s"
  shows "\<exists>t. sendFile request s = Inr t \<and> listening t \<and>
     written t = written s
       @ map (\<lambda>(k, line). DataFrame (projr (lineResponse (rq_startIndex request) k line)))
           (zip [0..<unat (rq_numSamples request)] (streamedLines request s))"
proof (cases "sdExists (sdFiles s) (take 12 (rq_filename request)) \<and> sdOpenOk s")
  case True
  let ?request = "request\<lparr>rq_filename := take 12 (rq_filename request)\<rparr>"
  let ?rest = "skipLines (unat (rq_startIndex request))
      (snd (readStringUntil newline (sdRead (sdFiles s) (take 12 (rq_filename request)))))"
  from assms True have "list_all lineFits
     (take (unat (rq_numSamples ?request) - 0) (fileLines ?rest))"
    by (simp add: labelsFit_def streamedLines_def)
  from sendLoop_fits [OF this, of "stopListening s"] True show ?thesis
    by (auto simp: sendFile_def Let_def startListening_def stopListening_def streamedLines_def
        MAX_FILENAME_LENGTH_def)
next
  case False
  then show ?thesis
    by (auto simp: sendFile_def Let_def startListening_def stopListening_def streamedLines_def
        MAX_FILENAME_LENGTH_def)
qed

lemma frameIndex_map:
  "list_all lineFits (take (n - c) ls) \<Longrightarrow>
   map frameIndex (map (\<lambda>(k, line). DataFrame (projr (lineResponse start k line)))
     (zip [c..<n] ls))
     = map (\<lambda>k. Some (start + of_nat k)) [c..<c + min (n - c) (length ls)]"
proof (induction ls arbitrary: c)
  case Nil
  show ?case by simp
next
  case (Cons l ls)
  show ?case
  proof (cases "c < n")
    case True
    then have n: "n - c = Suc (n - Suc c)" by simp
    have up: "[c..<n] = c # [Suc c..<n]"
      using True by (simp add: upt_conv_Cons)
    from Cons.prems have fit: "lineFits l"
      and fits: "list_all lineFits (take (n - Suc c) ls)"
      unfolding n by simp_all
    from lineResponse_fits [OF fit, of start c] have
      i: "frameIndex (DataFrame (projr (lineResponse start c l))) = Some (start + of_nat c)"
      by (auto simp: frameIndex_def)
    have m: "min (n - c) (length (l # ls)) = Suc (min (n - Suc c) (length ls))"
      unfolding n by simp
    have "[c..<c + Suc k] = c # [Suc c..<Suc c + k]" for k
      by (simp add: upt_conv_Cons del: upt_Suc)
    then have "[c..<c + min (n - c) (length (l # ls))]
        = c # [Suc c..<Suc c + min (n - Suc c) (length ls)]"
      unfolding m .
    with Cons.IH [OF fits] i show ?thesis
      unfolding up by simp
  next
    case False
    then show ?thesis by simp
  qed
qed

lemma written_sendLoop0:
  "written (sendLoop0 request counter rest s) =
     written s @ map (\<lambda>(k, line). DataFrame0 (lineResponse0 (rq_startIndex request) k line))
       (zip [counter..<unat (rq_numSamples request)] (fileLines rest))"
proof (induction request counter rest s rule: sendLoop0.induct)
  case (1 request counter rest s)
  show ?case
  proof (cases "rest \<noteq> [] \<and> counter < unat (rq_numSamples request)")
    case True
    obtain line rest' where r: "readStringUntil newline rest = (line, rest')"
      by (cases "readStringUntil newline rest")
    have fl: "fileLines rest = line # fileLines rest'"
      using True r by (subst fileLines.simps) simp
    have up: "[counter..<unat (rq_numSamples request)]
        = counter # [counter + 1..<unat (rq_numSamples request)]"
      using True by (simp add: upt_conv_Cons)
    from True r "1.IH" [OF True r [symmetric]] show ?thesis
      by (subst sendLoop0.simps) (simp add: radioWrite_def fl up)
  next
    case False
    then have "zip [counter..<unat (rq_numSamples request)] (fileLines rest) = []"
      by (subst fileLines.simps) auto
    with False show ?thesis by (subst sendLoop0.simps) auto
  qed
qed

lemma frameIndex0_map:
  "map frameIndex (map (\<lambda>(k, line). DataFrame0 (lineResponse0 start k line)) (zip [0..<n] ls))
     = map (\<lambda>k. Some (start + of_nat k)) [0..<min n (length ls)]"
proof -
  have "map frameIndex (map (\<lambda>(k, line). DataFrame0 (lineResponse0 start k line)) (zip [0..<n] ls))
      = map (\<lambda>k. Some (start + of_nat k)) (map fst (zip [0..<n] ls))"
    by (simp add: frameIndex_def lineResponse0_def Let_def split_def comp_def)
  also have "map fst (zip [0..<n] ls) = take (min n (length ls)) [0..<n]"
    by (simp add: map_fst_zip_take)
  also have "\<dots> = [0..<min n (length ls)]"
    by (simp add: take_upt min_def)
  finally show ?thesis .
qed

lemma written_checkForRFRequests:
  assumes "rxQueue s = request # queue" and "rq_command request = CMD_REQUEST_DATA"
  shows "written (checkForRFRequests s) =
     written s @ map (\<lambda>(k, line). DataFrame0 (lineResponse0 (rq_startIndex request) k line))
       (zip [0..<unat (rq_numSamples request)] (streamedLines0 request s))"
  using assms
  by (simp add: checkForRFRequests_def Let_def startListening_def stopListening_def
      written_sendLoop0 streamedLines0_def)

text \<open>
  C10. Let every line that the request makes \<open>sendFile\<close> parse be text whose label, the
  second field, fits the \<open>timestamp\<close> field (at most 16 bytes). Then \<open>sendFile\<close>
  returns, and the frames it has added are data responses whose index fields are
  \<open>startIndex + k\<close> at position \<open>k\<close> (in 16-bit arithmetic), whatever the first fields
  of the lines hold; their number is the smaller of \<open>numSamples\<close> and the number of lines
  left after the header row and the skipped lines. The same holds, for every file, for
  the data request of \<open>checkForRFRequests\<close> in \<open>part_000\<close>, whose response holds no
  text.
\<close>

theorem sendFile_index_by_position:
  "(labelsFit request s \<longrightarrow>
      (\<exists>t. sendFile request s = Inr t \<and>
         take (length (written s)) (written t) = written s \<and>
         map frameIndex (drop (length (written s)) (written t)) =
           map (\<lambda>k. Some (rq_startIndex request + of_nat k))
             [0..<length (written t) - length (written s)] \<and>
         length (written t) - length (written s) =
           min (unat (rq_numSamples request)) (length (streamedLines request s)))) \<and>
   (rxQueue s = request # queue \<and> rq_command request = CMD_REQUEST_DATA \<longrightarrow>
      take (length (written s)) (written (checkForRFRequests s)) = written s \<and>
      map frameIndex (drop (length (written s)) (written (checkForRFRequests s))) =
        map (\<lambda>k. Some (rq_startIndex request + of_nat k))
          [0..<length (written (checkForRFRequests s)) - length (written s)] \<and>
      length (written (checkForRFRequests s)) - length (written s) =
        min (unat (rq_numSamples request)) (length (streamedLines0 request s)))"
proof (rule conjI; rule impI)
  assume fit: "labelsFit request s"
  from sendFile_fits [OF fit] obtain t where t: "sendFile request s = Inr t"
    and w: "written t = written s
       @ map (\<lambda>(k, line). DataFrame (projr (lineResponse (rq_startIndex request) k line)))
           (zip [0..<unat (rq_numSamples request)] (streamedLines request s))"
    by blast
  from fit have "list_all lineFits
     (take (unat (rq_numSamples request) - 0) (streamedLines request s))"
    by (simp add: labelsFit_def)
  from frameIndex_map [OF this, of "rq_startIndex request"] t w
  show "\<exists>t. sendFile request s = Inr t \<and>
         take (length (written s)) (written t) = written s \<and>
         map frameIndex (drop (length (written s)) (written t)) =
           map (\<lambda>k. Some (rq_startIndex request + of_nat k))
             [0..<length (written t) - length (written s)] \<and>
         length (written t) - length (written s) =
           min (unat (rq_numSamples request)) (length (streamedLines request s))"
    by simp
next
  assume "rxQueue s = request # queue \<and> rq_command request = CMD_REQUEST_DATA"
  then show "take (length (written s)) (written (checkForRFRequests s)) = written s \<and>
      map frameIndex (drop (length (written s)) (written (checkForRFRequests s))) =
        map (\<lambda>k. Some (rq_startIndex request + of_nat k))
          [0..<length (written (checkForRFRequests s)) - length (written s)] \<and>
      length (written (checkForRFRequests s)) - length (written s) =
        min (unat (rq_numSamples request)) (length (streamedLines0 request s))"
    using frameIndex0_map [of "rq_startIndex request" "unat (rq_numSamples request)"
      "streamedLines0 request s"]
    by (simp add: written_checkForRFRequests)
qed

subsection \<open>The radio mode\<close>

lemma listening_sendFileList: "listening (sendFileList s)"
  by (simp add: sendFileList_def Let_def startListening_def split: prod.splits)

lemma listening_sendRTCInfo: "listening (sendRTCInfo request s)"
  by (simp add: sendRTCInfo_def Let_def startListening_def)

text \<open>A clock whose printed fields have at most two digits has a label of 14 bytes.\<close>

lemma length_dateTimeText:
  assumes "unat (month dt) < 100" and "unat (day dt) < 100" and "unat (hour dt) < 100"
    and "unat (minute dt) < 100"
  shows "length (dateTimeText dt) = 14"
  using assms by (simp add: dateTimeText_def length_pad2)

text \<open>A field that passes the check of \<open>modifyRTC\<close> has at most two digits.\<close>

lemma checkField_below:
  assumes "checkField key v now = (True, current)"
    and "unat (month now) < 100" and "unat (day now) < 100" and "unat (hour now) < 100"
    and "unat (minute now) < 100"
  shows "unat (month current) < 100 \<and> unat (day current) < 100 \<and> unat (hour current) < 100
    \<and> unat (minute current) < 100"
  using assms
  by (auto simp: checkField_def word_le_nat_alt word_less_nat_alt maxDaysOf_def
      split: if_splits)

lemma updateCurrentFilename_clock:
  "getCurrentDateTime (updateCurrentFilenameWith h s) = getCurrentDateTime s"
  by (simp add: updateCurrentFilenameWith_def Let_def getCurrentDateTime_def)

lemma modifyRTC_total:
  assumes "clockBelow100 s"
  shows "\<exists>success t. modifyRTC key v s = Inr (success, t)"
proof (cases "checkField key v (getCurrentDateTime s)")
  case (Pair valid current)
  show ?thesis
  proof (cases valid)
    case False
    with Pair have "modifyRTC key v s = Inr (False, s)" by (simp add: modifyRTC_def)
    then show ?thesis by blast
  next
    case True
    let ?s1 = "setDateTime current s"
    let ?s2 = "if key = RTC_KEY_MONTH \<or> key = RTC_KEY_DAY then updateCurrentFilename ?s1 else ?s1"
    from Pair True have cf: "checkField key v (getCurrentDateTime s) = (True, current)"
      by simp
    from assms have "unat (month (getCurrentDateTime s)) < 100"
      "unat (day (getCurrentDateTime s)) < 100" "unat (hour (getCurrentDateTime s)) < 100"
      "unat (minute (getCurrentDateTime s)) < 100"
      by (simp_all add: clockBelow100_def getCurrentDateTime_def)
    from checkField_below [OF cf this]
    have b: "unat (month current) < 100 \<and> unat (day current) < 100 \<and> unat (hour current) < 100
      \<and> unat (minute current) < 100" .
    have "getCurrentDateTime ?s2 = getCurrentDateTime ?s1"
      by (simp add: updateCurrentFilename_def updateCurrentFilename_clock)
    then have "length (dateTimeText (getCurrentDateTime ?s2)) = 14"
      using b by (simp add: length_dateTimeText getCurrentDateTime_def setDateTime_def)
    then have "formatDateTime (getCurrentDateTime ?s2) = Inr (dateTimeText (getCurrentDateTime ?s2))"
      by (simp add: formatDateTime_fits)
    with Pair True have "modifyRTC key v s = Inr (True, ?s2)"
      by (simp add: modifyRTC_def Let_def)
    then show ?thesis by blast
  qed
qed

lemma labelsFit_queue: "labelsFit request (s\<lparr>rxQueue := queue\<rparr>) = labelsFit request s"
  by (simp add: labelsFit_def streamedLines_def)

lemma clockBelow100_queue: "clockBelow100 (s\<lparr>rxQueue := queue\<rparr>) = clockBelow100 s"
  by (simp add: clockBelow100_def)

text \<open>
  C3. Whenever \<open>waitForCommand\<close> returns to the main loop the radio is in receive mode: a
  radio that was listening is listening again, whatever was received (nothing, an unknown
  opcode, any of the four commands) and whatever path the handler took; and after each of
  the four commands it is listening whatever its mode was before. The handler does
  return when what it copies or formats fits its buffer: for a data request the lines it
  parses are text with labels of at most 16 bytes, for a clock write the fields of the
  clock are below 100 (any other request needs nothing). \<open>checkForRFRequests\<close> of
  \<open>part_000\<close>, which copies no text, always returns and leaves a listening radio
  listening.
\<close>

theorem waitForCommand_listening:
  "(\<forall>t. waitForCommand s = Inr t \<and> listening s \<longrightarrow> listening t) \<and>
   (\<forall>t request queue. waitForCommand s = Inr t \<and> rxQueue s = request # queue \<and>
        rq_command request \<in> {CMD_FILE_LIST, CMD_REQUEST_DATA, CMD_MODIFY_RTC, CMD_GET_RTC_INFO}
      \<longrightarrow> listening t) \<and>
   (handlerFits s \<longrightarrow> (\<exists>t. waitForCommand s = Inr t)) \<and>
   (listening s \<longrightarrow> listening (checkForRFRequests s))"
proof (intro conjI allI impI)
  fix t
  assume "waitForCommand s = Inr t \<and> listening s"
  then show "listening t"
    by (auto simp: waitForCommand_def Let_def listening_sendFileList listening_sendRTCInfo
        startListening_def dest: sendFile_listening split: list.splits if_splits sum.splits)
next
  fix t request queue
  assume "waitForCommand s = Inr t \<and> rxQueue s = request # queue \<and>
        rq_command request \<in> {CMD_FILE_LIST, CMD_REQUEST_DATA, CMD_MODIFY_RTC, CMD_GET_RTC_INFO}"
  then show "listening t"
    by (auto simp: waitForCommand_def Let_def listening_sendFileList listening_sendRTCInfo
        startListening_def dest: sendFile_listening split: if_splits sum.splits)
next
  assume h: "handlerFits s"
  show "\<exists>t. waitForCommand s = Inr t"
  proof (cases "rxQueue s")
    case Nil
    then show ?thesis by (simp add: waitForCommand_def)
  next
    case (Cons request queue)
    let ?s0 = "s\<lparr>rxQueue := queue\<rparr>"
    have d: "rq_command request = CMD_REQUEST_DATA \<Longrightarrow> \<exists>t. sendFile request ?s0 = Inr t"
      using h Cons sendFile_fits [of request ?s0]
      by (auto simp: handlerFits_def labelsFit_queue)
    have m: "rq_command request = CMD_MODIFY_RTC \<Longrightarrow>
        \<exists>success t. modifyRTC (rq_key request) (rq_value request) ?s0 = Inr (success, t)"
      using h Cons modifyRTC_total [of ?s0 "rq_key request" "rq_value request"]
      by (simp add: handlerFits_def clockBelow100_queue CMD_MODIFY_RTC_def CMD_REQUEST_DATA_def)
    from d m Cons show ?thesis
      by (auto simp: waitForCommand_def Let_def)
  qed
next
  assume "listening s"
  then show "listening (checkForRFRequests s)"
    by (auto simp: checkForRFRequests_def Let_def startListening_def split: list.splits)
qed

subsection \<open>Storing and streaming back\<close>






















subsection \<open>The statements on the examples\<close>



lemmas eval_parse = lineFits_def timestampField_def indexOf_def toUnsigned_def substring_def
  Let_def comma_def

text \<open>
  The three records of the card of \<open>skewedState\<close> all carry the stored index 7. A request
  from the second record on reads two lines of text, whose labels have 14 bytes.
\<close>

lemma skewed_streamed:
  "streamedLines (dataRequest\<lparr>rq_startIndex := 1\<rparr>) skewedState
     = [''7,25-01-01 00:10,5,6,7,8'' @ [CHR 0x0D], ''7,25-01-01 00:20,9,9,9,9'' @ [CHR 0x0D]]"
  by (simp add: streamedLines_def dataRequest_def skewedState_def bootState_def sdExists_def
      sdRead_def readStringUntil_def newline_def crlf_def headerLine_def fileLines.simps)

lemma skewed_labelsFit: "labelsFit (dataRequest\<lparr>rq_startIndex := 1\<rparr>) skewedState"
  unfolding labelsFit_def skewed_streamed
  by (simp add: eval_parse dataRequest_def)

lemma skewed_lines0:
  "length (streamedLines0 (dataRequest\<lparr>rq_startIndex := 1\<rparr>)
     (skewedState\<lparr>rxQueue := [dataRequest\<lparr>rq_startIndex := 1\<rparr>]\<rparr>)) = 2"
  by (simp add: streamedLines0_def dataRequest_def skewedState_def bootState_def sdExists_def
      sdRead_def readStringUntil_def newline_def crlf_def headerLine_def fileLines.simps)

text \<open>Streamed from the second record, the records get the indices 1 and 2.\<close>

theorem sendFile_index_by_position_witness:
  "labelsFit (dataRequest\<lparr>rq_startIndex := 1\<rparr>) skewedState \<and>
   (\<exists>t. sendFile (dataRequest\<lparr>rq_startIndex := 1\<rparr>) skewedState = Inr t \<and>
      map frameIndex (written t) = [Some 1, Some 2]) \<and>
   map frameIndex (written (checkForRFRequests
       (skewedState\<lparr>rxQueue := [dataRequest\<lparr>rq_startIndex := 1\<rparr>]\<rparr>)))
     = [Some 1, Some 2]"
proof -
  let ?rq = "dataRequest\<lparr>rq_startIndex := 1\<rparr>"
  let ?s0 = "skewedState\<lparr>rxQueue := [?rq]\<rparr>"
  have a: "written skewedState = []" "rq_startIndex ?rq = 1" "unat (rq_numSamples ?rq) = 5"
    "written ?s0 = []"
    by (simp_all add: skewedState_def bootState_def dataRequest_def)
  have q: "rxQueue ?s0 = ?rq # [] \<and> rq_command ?rq = CMD_REQUEST_DATA"
    by (simp add: dataRequest_def)
  have up: "[0..<2] = [0, Suc 0]"
    by (simp add: upt_rec)
  from sendFile_index_by_position [where request = ?rq and s = skewedState] skewed_labelsFit
  obtain t where t: "sendFile ?rq skewedState = Inr t"
    and i: "map frameIndex (drop (length (written skewedState)) (written t)) =
           map (\<lambda>k. Some (rq_startIndex ?rq + of_nat k))
             [0..<length (written t) - length (written skewedState)]"
    and n: "length (written t) - length (written skewedState) =
           min (unat (rq_numSamples ?rq)) (length (streamedLines ?rq skewedState))"
    by blast
  have n2: "length (written t) = 2"
    using n unfolding skewed_streamed a by simp
  have 1: "map frameIndex (written t) = [Some 1, Some 2]"
    using i unfolding n2 a by (simp add: up)
  have n0: "length (written (checkForRFRequests ?s0)) = 2"
    using sendFile_index_by_position [where request = ?rq and s = ?s0 and queue = "[]"] q
    by (simp only: a skewed_lines0 list.size minus_nat.diff_0)
  from sendFile_index_by_position [where request = ?rq and s = ?s0 and queue = "[]"] q
  have 2: "map frameIndex (written (checkForRFRequests ?s0)) = [Some 1, Some 2]"
    unfolding n0 a by (simp add: up)
  from t 1 have "\<exists>t. sendFile ?rq skewedState = Inr t \<and>
      map frameIndex (written t) = [Some 1, Some 2]"
    by (intro exI [of _ t] conjI)
  with skewed_labelsFit 2 show ?thesis
    by (intro conjI)
qed

text \<open>
  A record whose second field is the 19-byte label of \<open>part_000\<close> does not fit the
  \<open>timestamp\<close> field of \<open>part_001\<close>: \<open>sendFile\<close> copies it beyond the field.
\<close>

lemma sendFile_long_label:
  "sendFile dataRequest
     (bootState\<lparr>sdFiles := [(''TMP_0101.CSV'',
        headerLine @ crlf @ ''0,2025-01-01 00:00:00,1,2,3,4'' @ crlf)]\<rparr>) = Inl OutOfBounds"
  by (simp add: sendFile_def Let_def stopListening_def dataRequest_def bootState_def sdExists_def
      sdRead_def readStringUntil_def newline_def crlf_def headerLine_def MAX_FILENAME_LENGTH_def
      sendLoop.simps lineResponse_def intoBuffer_def indexOf_def toUnsigned_def substring_def
      comma_def)

text \<open>
  A data request on the card of \<open>skewedState\<close>: its labels fit, the handler returns and the
  radio is listening.
\<close>

lemma skewed_handlerFits: "handlerFits (skewedState\<lparr>rxQueue := [dataRequest]\<rparr>)"
proof -
  have "streamedLines dataRequest (skewedState\<lparr>rxQueue := [dataRequest]\<rparr>)
     = [''7,25-01-01 00:00,1,2,3,4'' @ [CHR 0x0D], ''7,25-01-01 00:10,5,6,7,8'' @ [CHR 0x0D],
        ''7,25-01-01 00:20,9,9,9,9'' @ [CHR 0x0D]]"
    by (simp add: streamedLines_def dataRequest_def skewedState_def bootState_def sdExists_def
        sdRead_def readStringUntil_def newline_def crlf_def headerLine_def fileLines.simps)
  then have "labelsFit dataRequest (skewedState\<lparr>rxQueue := [dataRequest]\<rparr>)"
    unfolding labelsFit_def by (simp add: eval_parse dataRequest_def)
  then show ?thesis
    by (simp add: handlerFits_def) (simp add: dataRequest_def)
qed

theorem waitForCommand_listening_witness:
  "listening (skewedState\<lparr>rxQueue := [dataRequest]\<rparr>) \<and>
   handlerFits (skewedState\<lparr>rxQueue := [dataRequest]\<rparr>) \<and>
   (\<exists>t. waitForCommand (skewedState\<lparr>rxQueue := [dataRequest]\<rparr>) = Inr t \<and> listening t) \<and>
   listening (checkForRFRequests (skewedState\<lparr>rxQueue := [dataRequest]\<rparr>))"
proof -
  have l: "listening (skewedState\<lparr>rxQueue := [dataRequest]\<rparr>)"
    by (simp add: skewedState_def bootState_def)
  from waitForCommand_listening [of "skewedState\<lparr>rxQueue := [dataRequest]\<rparr>"]
    l skewed_handlerFits
  show ?thesis by blast
qed






end
